theory Spec2Isabelle
  imports Complex_Main "HOL-Library.AList"
begin

section \<open>Vector-to-polar conversion (check\_wind.py)\<close>

text \<open>
  The wind scripts compute on NumPy doubles. The embedding takes a double to be a real,
  so rounding is left out, with one addition: the zero carries its sign, because
  \<open>np.arctan2\<close> reads it. \<open>Fl 0\<close> is the double \<open>0.0\<close> and \<open>NegZero\<close> is \<open>-0.0\<close>;
  both have the value 0.
\<close>

datatype sfloat = Fl real | NegZero

fun val :: "sfloat \<Rightarrow> real" where
  "val (Fl r) = r"
| "val NegZero = 0"

text \<open>
  An argument of \<open>calc_wind_direction\<close> is a Python \<open>int\<close>, as in the list
  \<open>test_cases\<close> of the script, or a float, as the values of a grid are. The two differ
  in what \<open>-u\<close> does to a zero: the integer \<open>0\<close> stays \<open>0\<close>, the float \<open>0.0\<close> becomes
  \<open>-0.0\<close>. NumPy turns an integer into a double when it reaches \<open>np.arctan2\<close>.
\<close>

datatype arg = IntArg int | FloatArg sfloat

fun py_neg :: "arg \<Rightarrow> arg" where
  "py_neg (IntArg n) = IntArg (- n)"
| "py_neg (FloatArg (Fl r)) = FloatArg (if r = 0 then NegZero else Fl (- r))"
| "py_neg (FloatArg NegZero) = FloatArg (Fl 0)"

fun as_float :: "arg \<Rightarrow> sfloat" where
  "as_float (IntArg n) = Fl (of_int n)"
| "as_float (FloatArg x) = x"

text \<open>
  \<open>np.arctan2 y x\<close>, the angle of the point \<open>(x, y)\<close>. Where an argument is a zero its
  sign decides as IEEE 754 says: for a positive \<open>x\<close> the result is the zero \<open>y\<close> itself,
  for a negative \<open>x\<close> it is \<open>pi\<close> for \<open>0.0\<close> and \<open>-pi\<close> for \<open>-0.0\<close>, and at the origin
  it is \<open>y\<close> for \<open>x = 0.0\<close> and \<open>pi\<close> or \<open>-pi\<close>, with the sign of \<open>y\<close>, for \<open>x = -0.0\<close>.
\<close>

definition arctan2 :: "sfloat \<Rightarrow> sfloat \<Rightarrow> sfloat" where
  "arctan2 y x =
     (if 0 < val x then (if val y = 0 then y else Fl (arctan (val y / val x)))
      else if val x < 0 then
        (if 0 < val y \<or> y = Fl 0 then Fl (arctan (val y / val x) + pi)
         else Fl (arctan (val y / val x) - pi))
      else if 0 < val y then Fl (pi / 2)
      else if val y < 0 then Fl (- (pi / 2))
      else if x = NegZero then (if y = NegZero then Fl (- pi) else Fl pi)
      else y)"

text \<open>\<open>np.degrees\<close> multiplies by \<open>180 / pi\<close>; a zero keeps its sign.\<close>

fun degrees :: "sfloat \<Rightarrow> sfloat" where
  "degrees (Fl r) = Fl (r * (180 / pi))"
| "degrees NegZero = NegZero"

text \<open>
  \<^verbatim>\<open>
  def calc_wind_direction(u, v):
      speed = np.sqrt(u**2 + v**2)
      direction = np.degrees(np.arctan2(-u, -v))
      direction = np.where(direction < 0, direction + 360, direction)
      return speed, direction
  \<close>
  A square is never a negative zero, so the speed is not one either.
\<close>

definition calc_wind_direction :: "arg \<Rightarrow> arg \<Rightarrow> sfloat \<times> sfloat" where
  "calc_wind_direction u v =
     (let speed = Fl (sqrt ((val (as_float u))\<^sup>2 + (val (as_float v))\<^sup>2));
          direction = degrees (arctan2 (as_float (py_neg u)) (as_float (py_neg v)));
          direction = (if val direction < 0 then Fl (val direction + 360) else direction)
      in (speed, direction))"

text \<open>The compass interpretation of a direction (check\_wind.py, lines 89 to 104).\<close>

definition compass :: "real \<Rightarrow> string" where
  "compass dir_sydney =
     (if 337.5 \<le> dir_sydney \<or> dir_sydney < 22.5 then ''N''
      else if 22.5 \<le> dir_sydney \<and> dir_sydney < 67.5 then ''NE''
      else if 67.5 \<le> dir_sydney \<and> dir_sydney < 112.5 then ''E''
      else if 112.5 \<le> dir_sydney \<and> dir_sydney < 157.5 then ''SE''
      else if 157.5 \<le> dir_sydney \<and> dir_sydney < 202.5 then ''S''
      else if 202.5 \<le> dir_sydney \<and> dir_sydney < 247.5 then ''SW''
      else if 247.5 \<le> dir_sydney \<and> dir_sydney < 292.5 then ''W''
      else ''NW'')"

text \<open>
  One row of the table of fixed test vectors: the direction computed for \<open>(u, v)\<close> is
  within \<open>1e-9\<close> degrees of the expected bearing.
\<close>

definition meets_table_entry :: "arg \<Rightarrow> arg \<Rightarrow> real \<Rightarrow> bool" where
  "meets_table_entry u v expected =
     (case calc_wind_direction u v of
        (speed, direction) \<Rightarrow> \<bar>val direction - expected\<bar> \<le> 1 / 10 ^ 9)"

text \<open>
  The degenerate vector as the specification describes it: speed 0, direction exactly
  180 degrees, compass sector "S".
\<close>

definition degenerate_as_specified :: "arg \<Rightarrow> arg \<Rightarrow> bool" where
  "degenerate_as_specified u v =
     (case calc_wind_direction u v of
        (speed, direction) \<Rightarrow>
          speed = Fl 0 \<and> direction = Fl 180 \<and> compass (val direction) = ''S'')"

section \<open>Python values and errors\<close>

text \<open>
  The comparison scripts work on what \<open>json.loads\<close> returns: \<open>None\<close>, booleans,
  numbers, strings, lists and dictionaries. A number is a Python \<open>int\<close>, of any size, or
  a \<open>float\<close>: an IEEE 754 double, which is a real (one that the format holds), an
  infinity or NaN; \<open>json.loads\<close> returns the last three for the tokens \<open>Infinity\<close>,
  \<open>-Infinity\<close> and \<open>NaN\<close>. The sign of a zero is left out here: subtraction followed by
  \<open>abs\<close>, and the comparisons, do not read it. A nested dictionary is the list of its
  items in insertion order, with distinct keys. Every exception the scripts can raise is
  a constructor of \<open>error\<close>.
\<close>

datatype double = Finite real | PosInf | NegInf | NaN

datatype pynum = PyInt int | PyFloat double

datatype json =
    JNull
  | JBool bool
  | JNum pynum
  | JStr string
  | JArr "json list"
  | JObj "(string \<times> json) list"

abbreviation JInt :: "int \<Rightarrow> json" where
  "JInt n \<equiv> JNum (PyInt n)"

abbreviation JFloat :: "real \<Rightarrow> json" where
  "JFloat r \<equiv> JNum (PyFloat (Finite r))"

datatype error =
  KeyError | TypeError | IndexError | ValueError | OverflowError | JSONDecodeError

subsection \<open>Double arithmetic\<close>

text \<open>
  Rounding to the nearest double, ties to the even significand. A double has 53
  significant bits, and its unit in the last place is \<open>pow2 (-1074)\<close> or more: a real
  \<open>x\<close> with \<open>pow2 k \<le> \<bar>x\<bar> < pow2 (k + 1)\<close> is rounded to a multiple of \<open>pow2 e\<close> with
  \<open>e = max (k - 52) (-1074)\<close>, and a result of magnitude \<open>pow2 1024\<close> or more is an
  infinity.
\<close>

definition pow2 :: "int \<Rightarrow> real" where
  "pow2 e = (if 0 \<le> e then 2 ^ nat e else 1 / 2 ^ nat (- e))"

definition round_half_even :: "real \<Rightarrow> int" where
  "round_half_even q =
     (let f = \<lfloor>q\<rfloor>; d = q - of_int f
      in if d < 1 / 2 then f
         else if 1 / 2 < d then f + 1
         else if even f then f else f + 1)"

definition round_double :: "real \<Rightarrow> double" where
  "round_double x =
     (if x = 0 then Finite 0
      else
        (let e = max (\<lfloor>log 2 \<bar>x\<bar>\<rfloor> - 52) (- 1074);
             r = of_int (round_half_even (x / pow2 e)) * pow2 e
         in if 2 ^ 1024 \<le> \<bar>r\<bar> then (if 0 < x then PosInf else NegInf) else Finite r))"

text \<open>
  \<open>float(n)\<close> for an integer, as the mixed operations do it: correctly rounded, and an
  \<open>OverflowError\<close> ("int too large to convert to float") in place of an infinity.
\<close>

definition int_to_float :: "int \<Rightarrow> error + double" where
  "int_to_float n =
     (case round_double (of_int n) of
        Finite r \<Rightarrow> Inr (Finite r)
      | _ \<Rightarrow> Inl OverflowError)"

text \<open>\<open>x - y\<close> on doubles.\<close>

fun double_sub :: "double \<Rightarrow> double \<Rightarrow> double" where
  "double_sub NaN y = NaN"
| "double_sub x NaN = NaN"
| "double_sub (Finite a) (Finite b) = round_double (a - b)"
| "double_sub (Finite a) PosInf = NegInf"
| "double_sub (Finite a) NegInf = PosInf"
| "double_sub PosInf PosInf = NaN"
| "double_sub PosInf y = PosInf"
| "double_sub NegInf NegInf = NaN"
| "double_sub NegInf y = NegInf"

fun double_abs :: "double \<Rightarrow> double" where
  "double_abs (Finite a) = Finite \<bar>a\<bar>"
| "double_abs PosInf = PosInf"
| "double_abs NegInf = PosInf"
| "double_abs NaN = NaN"

text \<open>\<open>x < y\<close> and \<open>x == y\<close> on doubles: every comparison with NaN is false.\<close>

fun double_less :: "double \<Rightarrow> double \<Rightarrow> bool" where
  "double_less NaN y = False"
| "double_less x NaN = False"
| "double_less (Finite a) (Finite b) = (a < b)"
| "double_less NegInf NegInf = False"
| "double_less NegInf y = True"
| "double_less x NegInf = False"
| "double_less PosInf y = False"
| "double_less x PosInf = True"

fun double_eq :: "double \<Rightarrow> double \<Rightarrow> bool" where
  "double_eq NaN y = False"
| "double_eq x NaN = False"
| "double_eq x y = (x = y)"

subsection \<open>Numbers\<close>

text \<open>
  Python compares an \<open>int\<close> with a \<open>float\<close> by their exact values, without converting
  the integer to a double: \<open>exact\<close> is the value a comparison reads.
\<close>

fun exact :: "pynum \<Rightarrow> double" where
  "exact (PyInt n) = Finite (of_int n)"
| "exact (PyFloat x) = x"

definition py_less :: "pynum \<Rightarrow> pynum \<Rightarrow> bool" where
  "py_less a b = double_less (exact a) (exact b)"

definition py_gt :: "pynum \<Rightarrow> pynum \<Rightarrow> bool" where
  "py_gt a b = py_less b a"

definition py_num_eq :: "pynum \<Rightarrow> pynum \<Rightarrow> bool" where
  "py_num_eq a b = double_eq (exact a) (exact b)"

text \<open>
  \<open>a - b\<close>: exact on two integers; with a float on either side the integer is converted
  first, which can raise \<open>OverflowError\<close>.
\<close>

fun py_sub :: "pynum \<Rightarrow> pynum \<Rightarrow> error + pynum" where
  "py_sub (PyInt a) (PyInt b) = Inr (PyInt (a - b))"
| "py_sub (PyInt a) (PyFloat y) =
     (case int_to_float a of Inl e \<Rightarrow> Inl e | Inr x \<Rightarrow> Inr (PyFloat (double_sub x y)))"
| "py_sub (PyFloat x) (PyInt b) =
     (case int_to_float b of Inl e \<Rightarrow> Inl e | Inr y \<Rightarrow> Inr (PyFloat (double_sub x y)))"
| "py_sub (PyFloat x) (PyFloat y) = Inr (PyFloat (double_sub x y))"

fun py_abs :: "pynum \<Rightarrow> pynum" where
  "py_abs (PyInt a) = PyInt \<bar>a\<bar>"
| "py_abs (PyFloat x) = PyFloat (double_abs x)"

text \<open>
  A format specification such as \<open>.10f\<close> or \<open>.2e\<close> takes every float, and an integer
  that converts to a double; for a larger integer it raises \<open>OverflowError\<close>.
\<close>

fun formats_as_float :: "pynum \<Rightarrow> bool" where
  "formats_as_float (PyInt n) = (int_to_float n \<noteq> Inl OverflowError)"
| "formats_as_float (PyFloat x) = True"

text \<open>
  The float literals of the script: \<open>1e-6\<close> and \<open>1e-4\<close> denote the doubles nearest to
  these decimals, \<open>4722366482869645 / 2 ^ 72\<close> and \<open>7378697629483821 / 2 ^ 66\<close>.
\<close>

definition literal_1e_6 :: pynum where
  "literal_1e_6 = PyFloat (Finite (4722366482869645 / 2 ^ 72))"

definition literal_1e_4 :: pynum where
  "literal_1e_4 = PyFloat (Finite (7378697629483821 / 2 ^ 66))"

subsection \<open>Operations on values\<close>

text \<open>
  The operand of \<open>-\<close> and of \<open>abs\<close>: a number, or a boolean (Python's \<open>bool\<close> is a
  subclass of \<open>int\<close>). Anything else raises \<open>TypeError\<close>.
\<close>

fun num_of :: "json \<Rightarrow> pynum option" where
  "num_of (JNum n) = Some n"
| "num_of (JBool b) = Some (PyInt (if b then 1 else 0))"
| "num_of _ = None"

text \<open>\<open>abs(pv - sv)\<close>, the expression that every numeric comparison of the script uses.\<close>

definition py_abs_diff :: "json \<Rightarrow> json \<Rightarrow> error + pynum" where
  "py_abs_diff pv sv =
     (case (num_of pv, num_of sv) of
        (Some p, Some s) \<Rightarrow>
          (case py_sub p s of Inl e \<Rightarrow> Inl e | Inr d \<Rightarrow> Inr (py_abs d))
      | _ \<Rightarrow> Inl TypeError)"

text \<open>
  What \<open>len\<close> counts and \<open>zip\<close> iterates: the elements of a list, the characters of a
  string (each a string of length one), the keys of a dictionary. \<open>None\<close>, a boolean or
  a number raises \<open>TypeError\<close>.
\<close>

fun seq_of :: "json \<Rightarrow> json list option" where
  "seq_of (JArr xs) = Some xs"
| "seq_of (JStr s) = Some (map (\<lambda>c. JStr [c]) s)"
| "seq_of (JObj kvs) = Some (map (\<lambda>kv. JStr (fst kv)) kvs)"
| "seq_of _ = None"

text \<open>
  \<open>x[j]\<close> for a non-negative integer \<open>j\<close>: a list or a string raises \<open>IndexError\<close>
  out of range, a dictionary (whose keys are strings) raises \<open>KeyError\<close>, every other
  value raises \<open>TypeError\<close>.
\<close>

fun py_index :: "json \<Rightarrow> nat \<Rightarrow> error + json" where
  "py_index (JArr xs) j = (if j < length xs then Inr (xs ! j) else Inl IndexError)"
| "py_index (JStr s) j = (if j < length s then Inr (JStr [s ! j]) else Inl IndexError)"
| "py_index (JObj kvs) j = Inl KeyError"
| "py_index _ j = Inl TypeError"

section \<open>Payload Extractor (load\_json of compare\_outputs.py and verify\_wind\_direction.py)\<close>

text \<open>
  The two scripts have the same function \<open>load_json\<close>, statement for statement. The
  text of the file is a Python \<open>str\<close>, a sequence of Unicode code points, here a list
  of naturals: 10 is the line feed, 91 the opening bracket. \<open>str.strip()\<close> removes
  the characters for which \<open>str.isspace\<close> holds.
\<close>

type_synonym pystr = "nat list"

definition LF :: nat where
  "LF = 10"

definition marker :: pystr where
  "marker = [91]"

definition isspace :: "nat \<Rightarrow> bool" where
  "isspace c =
     ((9 \<le> c \<and> c \<le> 13) \<or> (28 \<le> c \<and> c \<le> 32) \<or> c = 133 \<or> c = 160 \<or> c = 5760 \<or>
      (8192 \<le> c \<and> c \<le> 8202) \<or> c = 8232 \<or> c = 8233 \<or> c = 8239 \<or> c = 8287 \<or>
      c = 12288)"

definition strip :: "pystr \<Rightarrow> pystr" where
  "strip s = rev (dropWhile isspace (rev (dropWhile isspace s)))"

text \<open>\<open>s.split(sep)\<close> for a one-character separator: never an empty list.\<close>

fun split :: "nat \<Rightarrow> pystr \<Rightarrow> pystr list" where
  "split sep [] = [[]]"
| "split sep (c # cs) =
     (if c = sep then [] # split sep cs
      else (case split sep cs of
              [] \<Rightarrow> [[c]]
            | l # ls \<Rightarrow> (c # l) # ls))"

text \<open>\<open>sep.join(lines)\<close> for a one-character separator.\<close>

fun join :: "nat \<Rightarrow> pystr list \<Rightarrow> pystr" where
  "join sep [] = []"
| "join sep [l] = l"
| "join sep (l # l' # ls) = l @ sep # join sep (l' # ls)"

text \<open>
  The loop of \<open>load_json\<close> over the lines, with its two variables \<open>found_json\<close> and
  \<open>json_lines\<close>:
  \<^verbatim>\<open>
  for line in lines:
      stripped = line.strip()
      if not found_json:
          if stripped == '[':
              found_json = True
              json_lines.append(line)
      else:
          json_lines.append(line)
  \<close>
\<close>

fun collect_lines :: "pystr list \<Rightarrow> bool \<Rightarrow> pystr list \<Rightarrow> pystr list" where
  "collect_lines [] found_json json_lines = json_lines"
| "collect_lines (line # lines) found_json json_lines =
     (let stripped = strip line in
      if \<not> found_json then
        (if stripped = marker then collect_lines lines True (json_lines @ [line])
         else collect_lines lines found_json json_lines)
      else collect_lines lines found_json (json_lines @ [line]))"

definition json_content :: "pystr \<Rightarrow> pystr" where
  "json_content content = join LF (collect_lines (split LF content) False [])"

text \<open>
  \<open>json.loads\<close> is the standard library's parser, a parameter of the model. The one
  fact about it that the extractor relies on is that the empty text is not a JSON
  document: \<open>json.loads('')\<close> raises \<open>JSONDecodeError\<close>.
\<close>

definition load_json :: "(pystr \<Rightarrow> error + 'a) \<Rightarrow> pystr \<Rightarrow> error + 'a" where
  "load_json loads content = loads (json_content content)"

text \<open>
  The contract in the words of the specification: the lines strictly before the first
  line whose trimmed content is the marker are discarded, the marker line and every line
  after it are concatenated with their line breaks.
\<close>

definition payload_after_marker :: "pystr \<Rightarrow> pystr" where
  "payload_after_marker content =
     join LF (dropWhile (\<lambda>line. strip line \<noteq> marker) (split LF content))"

section \<open>Tolerant Comparator (compare\_values of compare\_outputs.py)\<close>

text \<open>
  The summary string of \<open>compare_values\<close> is kept as the data it formats:
  \<open>LengthMismatch m n\<close> is "Length mismatch: m vs n", \<open>MaxDiffAt d i k\<close> is
  "Max diff d at index i, k values differ", \<open>MaxDiff d\<close> is "Max diff d".
\<close>

datatype summary = LengthMismatch nat nat | MaxDiffAt pynum nat nat | MaxDiff pynum

text \<open>
  The loop over \<open>enumerate(zip(pygrib_vals, swift_vals))\<close>, from index \<open>i\<close> on, with
  the variables \<open>max_diff\<close>, \<open>max_diff_idx\<close> and \<open>diffs\<close> (the list \<open>differing\<close>: HOL has
  a constant \<open>diffs\<close> of its own).
\<close>

fun compare_loop ::
  "nat \<Rightarrow> (json \<times> json) list \<Rightarrow> pynum \<Rightarrow>
   pynum \<times> nat \<times> (nat \<times> json \<times> json \<times> pynum) list \<Rightarrow>
   error + pynum \<times> nat \<times> (nat \<times> json \<times> json \<times> pynum) list" where
  "compare_loop i [] tolerance st = Inr st"
| "compare_loop i ((pv, sv) # rest) tolerance (max_diff, max_diff_idx, differing) =
     (case py_abs_diff pv sv of
        Inl e \<Rightarrow> Inl e
      | Inr diff \<Rightarrow>
          (let (max_diff', max_diff_idx') =
                  (if py_gt diff max_diff then (diff, i) else (max_diff, max_diff_idx));
               differing' =
                  (if py_gt diff tolerance then differing @ [(i, pv, sv, diff)]
                   else differing)
           in compare_loop (Suc i) rest tolerance (max_diff', max_diff_idx', differing')))"

text \<open>
  \<open>compare_values\<close>. Both return statements format \<open>max_diff\<close> as a float
  (\<open>.10f\<close>, \<open>.10e\<close>), which raises \<open>OverflowError\<close> for an integer too large for a
  double.
\<close>

definition compare_values :: "json \<Rightarrow> json \<Rightarrow> pynum \<Rightarrow> error + bool \<times> summary" where
  "compare_values pygrib_vals swift_vals tolerance =
     (case (seq_of pygrib_vals, seq_of swift_vals) of
        (Some ps, Some ss) \<Rightarrow>
          (if length ps \<noteq> length ss then Inr (False, LengthMismatch (length ps) (length ss))
           else
             (case compare_loop 0 (zip ps ss) tolerance (PyInt 0, 0, []) of
                Inl e \<Rightarrow> Inl e
              | Inr (max_diff, max_diff_idx, differing) \<Rightarrow>
                  (if \<not> formats_as_float max_diff then Inl OverflowError
                   else if differing \<noteq> []
                   then Inr (False, MaxDiffAt max_diff max_diff_idx (length differing))
                   else Inr (True, MaxDiff max_diff))))
      | _ \<Rightarrow> Inl TypeError)"

text \<open>The default of the third parameter, \<open>tolerance=1e-6\<close>.\<close>

definition default_tolerance :: pynum where
  "default_tolerance = literal_1e_6"

text \<open>A list of finite floats, as the extractor writes the value arrays.\<close>

definition num_list :: "real list \<Rightarrow> json" where
  "num_list xs = JArr (map JFloat xs)"

section \<open>Discrepancy Aggregator (main of compare\_outputs.py)\<close>

text \<open>
  A message is a dictionary with string keys (an element of the loaded list that is not a
  dictionary makes the first access to it raise; the type of the model leaves such
  elements out). \<open>key in pg\<close> is \<open>pg key \<noteq> None\<close>,
  \<open>pg[key]\<close> raises \<open>KeyError\<close> for a missing key, \<open>pg.get(key)\<close> returns \<open>None\<close>
  for it (the same value as a JSON \<open>null\<close>), \<open>pg.get(key, "N/A")\<close> the string "N/A".
\<close>

type_synonym message = "string \<rightharpoonup> json"

definition py_item :: "message \<Rightarrow> string \<Rightarrow> error + json" where
  "py_item m key = (case m key of None \<Rightarrow> Inl KeyError | Some v \<Rightarrow> Inr v)"

definition py_get :: "message \<Rightarrow> string \<Rightarrow> json" where
  "py_get m key = (case m key of None \<Rightarrow> JNull | Some v \<Rightarrow> v)"

definition py_get_default :: "message \<Rightarrow> string \<Rightarrow> json \<Rightarrow> json" where
  "py_get_default m key d = (case m key of None \<Rightarrow> d | Some v \<Rightarrow> v)"

text \<open>
  Python's \<open>==\<close> on these values: numbers and booleans by value (\<open>True == 1\<close>, and
  NaN equal to nothing), lists element by element, dictionaries as sets of items; values
  of different kinds differ.
\<close>

fun py_eq :: "json \<Rightarrow> json \<Rightarrow> bool"
  and py_eq_list :: "json list \<Rightarrow> json list \<Rightarrow> bool"
  and py_items_in :: "(string \<times> json) list \<Rightarrow> (string \<times> json) list \<Rightarrow> bool"
  and py_item_in :: "string \<Rightarrow> json \<Rightarrow> (string \<times> json) list \<Rightarrow> bool" where
  "py_eq JNull JNull = True"
| "py_eq (JBool a) (JBool b) = (a = b)"
| "py_eq (JBool a) (JNum b) = py_num_eq (PyInt (if a then 1 else 0)) b"
| "py_eq (JNum a) (JBool b) = py_num_eq a (PyInt (if b then 1 else 0))"
| "py_eq (JNum a) (JNum b) = py_num_eq a b"
| "py_eq (JStr a) (JStr b) = (a = b)"
| "py_eq (JArr xs) (JArr ys) = py_eq_list xs ys"
| "py_eq (JObj kvs) (JObj kvs') = (length kvs = length kvs' \<and> py_items_in kvs kvs')"
| "py_eq _ _ = False"
| "py_eq_list [] [] = True"
| "py_eq_list (x # xs) (y # ys) = (py_eq x y \<and> py_eq_list xs ys)"
| "py_eq_list _ _ = False"
| "py_items_in [] kvs' = True"
| "py_items_in ((k, v) # kvs) kvs' = (py_item_in k v kvs' \<and> py_items_in kvs kvs')"
| "py_item_in k v [] = False"
| "py_item_in k v ((k', v') # kvs') = (if k = k' then py_eq v v' else py_item_in k v kvs')"

text \<open>
  The four buckets of the dictionary \<open>issues\<close>, in the order of its keys. An issue is
  kept as the data its message formats.
\<close>

datatype category = Values | Metadata | Grid | Time

datatype issue =
    ValuesDiffer nat json summary
  | SampleMismatch nat
  | MinDiffers nat json json
  | MaxDiffers nat json json
  | MeanDiffers nat json json
  | GridSizeDiffers nat
  | ParameterIdDiffers nat json json

text \<open>The match column of the detail table: "N/A", a tick or a cross.\<close>

datatype mark = NA | Tick | Cross

text \<open>
  What the script prints, one constructor for each \<open>print\<close> call that shows data and
  one for each block of fixed text; a constructor holds the values that the line formats,
  the widths and the number of digits are left out. With the line numbers of
  compare\_outputs.py:
  \<open>Banner\<close> 52 to 54, \<open>MessageCounts\<close> 59 and 60, \<open>CountMismatch\<close> 63,
  \<open>Comparing\<close> 66, \<open>FailValues\<close> 89, \<open>ParameterLine\<close> 90, \<open>DetailLine\<close> 91,
  \<open>First5Header\<close> 96, \<open>First5Row\<close> 101, \<open>Blank\<close> 102, \<open>OkValues\<close> 104,
  \<open>FailSample\<close> 113, \<open>First10Detail\<close> 115, \<open>Last10Detail\<close> 117, \<open>OkSample\<close> 119,
  \<open>SummaryBanner\<close> 137 to 139, \<open>AllMatch\<close> 142, \<open>DiscrepanciesFound\<close> 144,
  \<open>CategoryHeader\<close> 148, \<open>IssueLine\<close> 150, \<open>MoreIssues\<close> 152, \<open>DetailBanner\<close> 155
  to 157, \<open>DetailHeader\<close> 162 and 163, \<open>DetailRow\<close> 213, \<open>First20Banner\<close> 216 to 218,
  \<open>First20Header\<close> 221 and 222, \<open>First20Row\<close> 229.
\<close>

datatype out =
    Banner
  | MessageCounts nat nat
  | CountMismatch
  | Comparing nat
  | FailValues nat
  | ParameterLine json
  | DetailLine summary
  | First5Header
  | First5Row nat pynum pynum pynum bool
  | Blank
  | OkValues nat string summary
  | FailSample nat string
  | First10Detail summary
  | Last10Detail summary
  | OkSample nat string
  | SummaryBanner
  | AllMatch
  | DiscrepanciesFound
  | CategoryHeader category nat
  | IssueLine issue
  | MoreIssues nat
  | DetailBanner
  | DetailHeader
  | DetailRow string json json mark
  | First20Banner
  | First20Header
  | First20Row nat pynum pynum pynum bool

text \<open>
  The variables of \<open>main\<close> that the comparison pass updates, and the text printed so
  far. A step returns the exception it raised, if any, with the state it reached.
\<close>

record state =
  all_match :: bool
  issues :: "category \<Rightarrow> issue list"
  printed :: "out list"

type_synonym step = "state \<Rightarrow> error option \<times> state"

definition print :: "out \<Rightarrow> state \<Rightarrow> state" where
  "print line st = st\<lparr>printed := printed st @ [line]\<rparr>"

definition append_issue :: "category \<Rightarrow> issue \<Rightarrow> state \<Rightarrow> state" where
  "append_issue c item st = st\<lparr>issues := (issues st)(c := issues st c @ [item])\<rparr>"

definition and_then :: "step \<Rightarrow> step \<Rightarrow> step" where
  "and_then f g st = (case f st of (None, st') \<Rightarrow> g st' | (Some e, st') \<Rightarrow> (Some e, st'))"

text \<open>
  \<open>f"{pg['parameterName'][:30]:30}"\<close>: a missing key raises \<open>KeyError\<close>; a value that
  is not a string raises \<open>TypeError\<close> (it cannot be sliced, or, for a list, does not take
  the format width; a dictionary raises \<open>KeyError\<close> instead from Python 3.12 on).
\<close>

definition parameter_name30 :: "message \<Rightarrow> error + string" where
  "parameter_name30 pg =
     (case pg ''parameterName'' of
        None \<Rightarrow> Inl KeyError
      | Some (JStr s) \<Rightarrow> Inr (take 30 s)
      | Some _ \<Rightarrow> Inl TypeError)"

text \<open>
  \<open>pv, sv = pg_vals[j], sg_vals[j]\<close> followed by \<open>diff = abs(pv - sv)\<close>: the two
  numbers and their distance, or the exception of the first step that fails.
\<close>

definition element_diff :: "json \<Rightarrow> json \<Rightarrow> nat \<Rightarrow> error + pynum \<times> pynum \<times> pynum" where
  "element_diff pg_vals sg_vals j =
     (case py_index pg_vals j of
        Inl e \<Rightarrow> Inl e
      | Inr pv \<Rightarrow>
          (case py_index sg_vals j of
             Inl e \<Rightarrow> Inl e
           | Inr sv \<Rightarrow>
               (case (num_of pv, num_of sv) of
                  (Some p, Some s) \<Rightarrow>
                    (case py_sub p s of
                       Inl e \<Rightarrow> Inl e
                     | Inr d \<Rightarrow> Inr (p, s, py_abs d))
                | _ \<Rightarrow> Inl TypeError)))"

text \<open>
  The loops that print the first rows of two value lists (lines 97 to 101 with
  \<open>First5Row\<close>, lines 224 to 229 with \<open>First20Row\<close>), for the indices \<open>js\<close>. The row
  formats the two values and their distance as floats.
\<close>

fun print_rows ::
  "(nat \<Rightarrow> pynum \<Rightarrow> pynum \<Rightarrow> pynum \<Rightarrow> bool \<Rightarrow> out) \<Rightarrow> json \<Rightarrow> json \<Rightarrow> nat list \<Rightarrow> step"
  where
  "print_rows row pg_vals sg_vals [] st = (None, st)"
| "print_rows row pg_vals sg_vals (j # js) st =
     (case element_diff pg_vals sg_vals j of
        Inl e \<Rightarrow> (Some e, st)
      | Inr (pv, sv, diff) \<Rightarrow>
          (if formats_as_float pv \<and> formats_as_float sv \<and> formats_as_float diff then
             print_rows row pg_vals sg_vals js
               (print (row j pv sv diff (py_less diff literal_1e_6)) st)
           else (Some OverflowError, st)))"

text \<open>\<open>for j in range(min(n, len(pg_vals)))\<close> around that loop body.\<close>

definition print_first_rows ::
  "(nat \<Rightarrow> pynum \<Rightarrow> pynum \<Rightarrow> pynum \<Rightarrow> bool \<Rightarrow> out) \<Rightarrow> nat \<Rightarrow> json \<Rightarrow> json \<Rightarrow> step"
  where
  "print_first_rows row n pg_vals sg_vals st =
     (case seq_of pg_vals of
        None \<Rightarrow> (Some TypeError, st)
      | Some xs \<Rightarrow> print_rows row pg_vals sg_vals [0 ..< min n (length xs)] st)"

text \<open>Lines 86 to 104: the two branches after \<open>compare_values\<close> on the full arrays.\<close>

definition report_values :: "nat \<Rightarrow> message \<Rightarrow> json \<Rightarrow> json \<Rightarrow> bool \<Rightarrow> summary \<Rightarrow> step" where
  "report_values msg_num pg pg_vals sg_vals match detail st =
     (if \<not> match then
        (let st = st\<lparr>all_match := False\<rparr> in
         case py_item pg ''parameterName'' of
           Inl e \<Rightarrow> (Some e, st)
         | Inr name \<Rightarrow>
             (let st = append_issue Values (ValuesDiffer msg_num name detail) st;
                  st = print (FailValues msg_num) st;
                  st = print (ParameterLine name) st;
                  st = print (DetailLine detail) st;
                  st = print First5Header st
              in case print_first_rows First5Row 5 pg_vals sg_vals st of
                   (None, st) \<Rightarrow> (None, print Blank st)
                 | (Some e, st) \<Rightarrow> (Some e, st)))
      else
        (case parameter_name30 pg of
           Inl e \<Rightarrow> (Some e, st)
         | Inr name \<Rightarrow> (None, print (OkValues msg_num name detail) st)))"

text \<open>Lines 110 to 119: the two branches after \<open>compare_values\<close> on the two samples.\<close>

definition report_sample :: "nat \<Rightarrow> message \<Rightarrow> bool \<Rightarrow> summary \<Rightarrow> bool \<Rightarrow> summary \<Rightarrow> step" where
  "report_sample msg_num pg match1 detail1 match2 detail2 st =
     (if \<not> (match1 \<and> match2) then
        (let st = st\<lparr>all_match := False\<rparr>;
             st = append_issue Values (SampleMismatch msg_num) st
         in case parameter_name30 pg of
              Inl e \<Rightarrow> (Some e, st)
            | Inr name \<Rightarrow>
                (let st = print (FailSample msg_num name) st;
                     st = (if \<not> match1 then print (First10Detail detail1) st else st);
                     st = (if \<not> match2 then print (Last10Detail detail2) st else st)
                 in (None, st)))
      else
        (case parameter_name30 pg of
           Inl e \<Rightarrow> (Some e, st)
         | Inr name \<Rightarrow> (None, print (OkSample msg_num name) st)))"

text \<open>
  Lines 83 to 119, "Compare all values if available": the full arrays when both messages
  have \<open>allValues\<close>, else the two samples when both have \<open>first10\<close>, else nothing.
\<close>

definition compare_payload :: "nat \<Rightarrow> message \<Rightarrow> message \<Rightarrow> step" where
  "compare_payload msg_num pg sg st =
     (case (pg ''allValues'', sg ''allValues'') of
        (Some pg_vals, Some sg_vals) \<Rightarrow>
          (case compare_values pg_vals sg_vals default_tolerance of
             Inl e \<Rightarrow> (Some e, st)
           | Inr (match, detail) \<Rightarrow> report_values msg_num pg pg_vals sg_vals match detail st)
      | _ \<Rightarrow>
          (case (pg ''first10'', sg ''first10'') of
             (Some pg_first, Some sg_first) \<Rightarrow>
               (case compare_values pg_first sg_first default_tolerance of
                  Inl e \<Rightarrow> (Some e, st)
                | Inr (match1, detail1) \<Rightarrow>
                    (case py_item pg ''last10'' of
                       Inl e \<Rightarrow> (Some e, st)
                     | Inr pg_last \<Rightarrow>
                         (case py_item sg ''last10'' of
                            Inl e \<Rightarrow> (Some e, st)
                          | Inr sg_last \<Rightarrow>
                              (case compare_values pg_last sg_last default_tolerance of
                                 Inl e \<Rightarrow> (Some e, st)
                               | Inr (match2, detail2) \<Rightarrow>
                                   report_sample msg_num pg match1 detail1 match2 detail2 st))))
           | _ \<Rightarrow> (None, st)))"

text \<open>
  One line of "Compare statistics" (lines 122 to 127):
  \<open>if abs(pg[key] - sg[key]) > tolerance: issues["values"].append(...)\<close>.
\<close>

definition compare_statistic ::
  "string \<Rightarrow> pynum \<Rightarrow> (json \<Rightarrow> json \<Rightarrow> issue) \<Rightarrow> message \<Rightarrow> message \<Rightarrow> step" where
  "compare_statistic key tolerance differs pg sg st =
     (case py_item pg key of
        Inl e \<Rightarrow> (Some e, st)
      | Inr pv \<Rightarrow>
          (case py_item sg key of
             Inl e \<Rightarrow> (Some e, st)
           | Inr sv \<Rightarrow>
               (case py_abs_diff pv sv of
                  Inl e \<Rightarrow> (Some e, st)
                | Inr d \<Rightarrow>
                    (if py_gt d tolerance
                     then (None, append_issue Values (differs pv sv) st)
                     else (None, st)))))"

definition compare_statistics :: "nat \<Rightarrow> message \<Rightarrow> message \<Rightarrow> step" where
  "compare_statistics msg_num pg sg =
     and_then (compare_statistic ''min'' literal_1e_6 (MinDiffers msg_num) pg sg)
       (and_then (compare_statistic ''max'' literal_1e_6 (MaxDiffers msg_num) pg sg)
          (compare_statistic ''mean'' literal_1e_4 (MeanDiffers msg_num) pg sg))"

text \<open>Lines 129 to 131, "Compare grid".\<close>

definition compare_grid :: "nat \<Rightarrow> message \<Rightarrow> message \<Rightarrow> step" where
  "compare_grid msg_num pg sg st =
     (if \<not> py_eq (py_get pg ''Ni'') (py_get sg ''Ni'') \<or>
         \<not> py_eq (py_get pg ''Nj'') (py_get sg ''Nj'')
      then (None, append_issue Grid (GridSizeDiffers msg_num) st)
      else (None, st))"

text \<open>Lines 133 to 135, "Compare parameter ID".\<close>

definition compare_parameter_id :: "nat \<Rightarrow> message \<Rightarrow> message \<Rightarrow> step" where
  "compare_parameter_id msg_num pg sg st =
     (if \<not> py_eq (py_get pg ''indicatorOfParameter'') (py_get sg ''indicatorOfParameter'')
      then (None, append_issue Metadata
              (ParameterIdDiffers msg_num (py_get pg ''indicatorOfParameter'')
                 (py_get sg ''indicatorOfParameter'')) st)
      else (None, st))"

text \<open>The body of the loop over the messages, lines 79 to 135.\<close>

definition compare_message :: "nat \<Rightarrow> message \<Rightarrow> message \<Rightarrow> step" where
  "compare_message msg_num pg sg =
     and_then (compare_payload msg_num pg sg)
       (and_then (compare_statistics msg_num pg sg)
          (and_then (compare_grid msg_num pg sg) (compare_parameter_id msg_num pg sg)))"

text \<open>
  \<open>for i in range(len(pygrib_data))\<close> from index \<open>i\<close> on, over the remaining messages of
  the two lists, which have the same length; the message number is \<open>i + 1\<close>.
\<close>

fun compare_messages :: "nat \<Rightarrow> message list \<Rightarrow> message list \<Rightarrow> step" where
  "compare_messages i (pg # pgs) (sg # sgs) st =
     (case compare_message (i + 1) pg sg st of
        (None, st') \<Rightarrow> compare_messages (Suc i) pgs sgs st'
      | (Some e, st') \<Rightarrow> (Some e, st'))"
| "compare_messages i _ _ st = (None, st)"

text \<open>Lines 146 to 152: the report of one category, printed when it has items.\<close>

definition print_category :: "category \<Rightarrow> state \<Rightarrow> state" where
  "print_category c st =
     (let items = issues st c in
      if items \<noteq> [] then
        (let st = print (CategoryHeader c (length items)) st;
             st = fold (\<lambda>item. print (IssueLine item)) (take 10 items) st
         in if length items > 10 then print (MoreIssues (length items - 10)) st else st)
      else st)"

text \<open>Lines 137 to 152: the summary and the verdict.\<close>

definition print_summary :: "state \<Rightarrow> state" where
  "print_summary st =
     (let st = print SummaryBanner st in
      if all_match st then print AllMatch st
      else fold print_category [Values, Metadata, Grid, Time] (print DiscrepanciesFound st))"

text \<open>
  The list \<open>fields\<close> of the detail table, lines 165 to 188 (\<open>detail_fields\<close> here:
  every record of HOL has a constant \<open>fields\<close>).
\<close>

definition detail_fields :: "(string \<times> string) list" where
  "detail_fields =
     [(''parameterName'', ''parameterName''),
      (''indicatorOfParameter'', ''indicatorOfParameter''),
      (''level'', ''level''),
      (''Ni (grid cols)'', ''Ni''),
      (''Nj (grid rows)'', ''Nj''),
      (''numValues'', ''numValues''),
      (''min'', ''min''),
      (''max'', ''max''),
      (''mean'', ''mean''),
      (''firstLat'', ''firstLat''),
      (''firstLon'', ''firstLon''),
      (''lastLat'', ''lastLat''),
      (''lastLon'', ''lastLon''),
      (''latitudeOfFirstGridPoint'', ''latitudeOfFirstGridPoint''),
      (''longitudeOfFirstGridPoint'', ''longitudeOfFirstGridPoint''),
      (''latitudeOfLastGridPoint'', ''latitudeOfLastGridPoint''),
      (''longitudeOfLastGridPoint'', ''longitudeOfLastGridPoint''),
      (''year'', ''year''),
      (''month'', ''month''),
      (''day'', ''day''),
      (''hour'', ''hour''),
      (''minute'', ''minute'')]"

text \<open>
  Lines 205 to 211, "Check match", for the two values \<open>pv = pg.get(key, "N/A")\<close> and
  \<open>sv = sg.get(key, "N/A")\<close>; the subtraction of two numbers can raise.
\<close>

definition check_match :: "json \<Rightarrow> json \<Rightarrow> error + mark" where
  "check_match pv sv =
     (if py_eq pv (JStr ''N/A'') \<or> py_eq sv (JStr ''N/A'') then Inr NA
      else
        (case (num_of pv, num_of sv) of
           (Some p, Some s) \<Rightarrow>
             (case py_abs_diff pv sv of
                Inl e \<Rightarrow> Inl e
              | Inr d \<Rightarrow> Inr (if py_less d literal_1e_6 then Tick else Cross))
         | _ \<Rightarrow> Inr (if py_eq pv sv then Tick else Cross)))"

text \<open>Lines 191 to 213, the body of the loop over \<open>fields\<close>: the row it prints.\<close>

definition detail_row :: "message \<Rightarrow> message \<Rightarrow> string \<times> string \<Rightarrow> error + out" where
  "detail_row pg sg field =
     (let pv = py_get_default pg (snd field) (JStr ''N/A'');
          sv = py_get_default sg (snd field) (JStr ''N/A'')
      in case check_match pv sv of
           Inl e \<Rightarrow> Inl e
         | Inr match \<Rightarrow> Inr (DetailRow (fst field) pv sv match))"

text \<open>\<open>for label, key in fields\<close>, over the fields that are left.\<close>

fun print_detail_rows :: "message \<Rightarrow> message \<Rightarrow> (string \<times> string) list \<Rightarrow> step" where
  "print_detail_rows pg sg [] st = (None, st)"
| "print_detail_rows pg sg (field # rest) st =
     (case detail_row pg sg field of
        Inl e \<Rightarrow> (Some e, st)
      | Inr row \<Rightarrow> print_detail_rows pg sg rest (print row st))"

text \<open>Lines 215 to 229: the first 20 values of the first message.\<close>

definition print_first20 :: "message \<Rightarrow> message \<Rightarrow> step" where
  "print_first20 pg sg st =
     (let st = print First20Banner st in
      case (pg ''allValues'', sg ''allValues'') of
        (Some pg_vals, Some sg_vals) \<Rightarrow>
          print_first_rows First20Row 20 pg_vals sg_vals (print First20Header st)
      | _ \<Rightarrow> (None, st))"

text \<open>Lines 154 to 229: the detailed comparison of the first message.\<close>

definition print_detail :: "message list \<Rightarrow> message list \<Rightarrow> step" where
  "print_detail pygrib_data swift_data st =
     (let st = print DetailBanner st in
      case (pygrib_data, swift_data) of
        (pg # _, sg # _) \<Rightarrow>
          (case print_detail_rows pg sg detail_fields (print DetailHeader st) of
             (None, st) \<Rightarrow> print_first20 pg sg st
           | (Some e, st) \<Rightarrow> (Some e, st))
      | _ \<Rightarrow> (Some IndexError, st))"

text \<open>
  How a run ends: \<open>Aborted\<close> at the \<open>return\<close> of line 64, before the variables
  \<open>issues\<close> and \<open>all_match\<close> exist, with the text printed; \<open>Raised\<close> with an uncaught
  exception; \<open>Completed\<close> at the end of \<open>main\<close>.
\<close>

datatype run = Aborted "out list" | Raised error state | Completed state

text \<open>
  \<open>main\<close> of compare\_outputs.py, for the two lists of messages that \<open>load_json\<close> returned for
  pygrib\_output.json and swiftgrib\_output.json.
\<close>

definition main_compare_outputs :: "message list \<Rightarrow> message list \<Rightarrow> run" where
  "main_compare_outputs pygrib_data swift_data =
     (let header = [Banner, MessageCounts (length pygrib_data) (length swift_data)] in
      if length pygrib_data \<noteq> length swift_data then Aborted (header @ [CountMismatch])
      else
        (let st = \<lparr>all_match = True, issues = (\<lambda>c. []),
                   printed = header @ [Comparing (length pygrib_data)]\<rparr>
         in case compare_messages 0 pygrib_data swift_data st of
              (Some e, st) \<Rightarrow> Raised e st
            | (None, st) \<Rightarrow>
                (case print_detail pygrib_data swift_data (print_summary st) of
                   (Some e, st) \<Rightarrow> Raised e st
                 | (None, st) \<Rightarrow> Completed st)))"

section \<open>Record Extractor (main of compare\_pygrib.py)\<close>

text \<open>
  A message of the reference decoder, as far as the extractor reads it: \<open>attrs\<close> holds
  the attributes that \<open>getattr\<close> returns (as JSON values; for a missing one \<open>getattr\<close>
  raises one of the exceptions that \<open>safe_get\<close> catches), \<open>analDate\<close> the text of
  \<open>str(grb.analDate)\<close> when that attribute exists, \<open>validDate\<close> the text of
  \<open>str(grb.validDate)\<close> or the exception the attribute raises, \<open>grb_values\<close> the
  array \<open>grb.values.flatten()\<close>, and \<open>lats\<close>, \<open>lons\<close> the two flattened arrays of
  \<open>grb.latlons()\<close>. The arrays hold finite values, taken as reals: what the extractor
  computes from them decides no property below, only which keys it writes.
\<close>

record grb =
  attrs :: "string \<rightharpoonup> json"
  analDate :: "string option"
  validDate :: "error + string"
  grb_values :: "real list"
  lats :: "real list"
  lons :: "real list"

definition safe_get :: "grb \<Rightarrow> string \<Rightarrow> json \<Rightarrow> json" where
  "safe_get g attr dflt = (case attrs g attr of None \<Rightarrow> dflt | Some v \<Rightarrow> v)"

text \<open>\<open>a[i]\<close> on a one-dimensional array: a negative index counts from the end.\<close>

definition np_index :: "real list \<Rightarrow> int \<Rightarrow> error + real" where
  "np_index a i =
     (if 0 \<le> i \<and> i < int (length a) then Inr (a ! nat i)
      else if i < 0 \<and> - i \<le> int (length a) then Inr (a ! nat (int (length a) + i))
      else Inl IndexError)"

text \<open>\<open>str\<close> of an integer, in decimal.\<close>

fun str_nat :: "nat \<Rightarrow> string" where
  "str_nat n =
     (if n < 10 then [''0123456789'' ! n]
      else str_nat (n div 10) @ [''0123456789'' ! (n mod 10)])"

definition str_int :: "int \<Rightarrow> string" where
  "str_int i = (if i < 0 then CHR ''-'' # str_nat (nat (- i)) else str_nat (nat i))"

text \<open>
  Line 74, the dictionary comprehension
  \<open>{str(idx): float(values[idx]) for idx in spot_indices}\<close>: the items so far, the
  indices left; a key met again keeps its place and takes the new value.
\<close>

fun spot_values ::
  "real list \<Rightarrow> int list \<Rightarrow> (string \<times> json) list \<Rightarrow> error + (string \<times> json) list" where
  "spot_values a [] items = Inr items"
| "spot_values a (idx # rest) items =
     (case np_index a idx of
        Inl e \<Rightarrow> Inl e
      | Inr v \<Rightarrow> spot_values a rest (AList.update (str_int idx) (JFloat v) items))"

text \<open>Lines 26 to 54: the dictionary literal "basic info" and the "grid info".\<close>

definition basic_info :: "nat \<Rightarrow> grb \<Rightarrow> string \<Rightarrow> message" where
  "basic_info msg_num g valid_date =
     [''message'' \<mapsto> JInt (int msg_num),
      ''parameterName'' \<mapsto> safe_get g ''parameterName'' JNull,
      ''shortName'' \<mapsto> safe_get g ''shortName'' JNull,
      ''indicatorOfParameter'' \<mapsto> safe_get g ''indicatorOfParameter'' JNull,
      ''table2Version'' \<mapsto> safe_get g ''table2Version'' JNull,
      ''level'' \<mapsto> safe_get g ''level'' JNull,
      ''levelType'' \<mapsto> safe_get g ''levelType'' JNull,
      ''typeOfLevel'' \<mapsto> safe_get g ''typeOfLevel'' JNull,
      ''validDate'' \<mapsto> JStr valid_date,
      ''analDate'' \<mapsto> JStr (case analDate g of None \<Rightarrow> ''None'' | Some d \<Rightarrow> d),
      ''dataDate'' \<mapsto> safe_get g ''dataDate'' JNull,
      ''dataTime'' \<mapsto> safe_get g ''dataTime'' JNull,
      ''year'' \<mapsto> safe_get g ''year'' JNull,
      ''month'' \<mapsto> safe_get g ''month'' JNull,
      ''day'' \<mapsto> safe_get g ''day'' JNull,
      ''hour'' \<mapsto> safe_get g ''hour'' JNull,
      ''minute'' \<mapsto> safe_get g ''minute'' JNull,
      ''Ni'' \<mapsto> safe_get g ''Ni'' JNull,
      ''Nj'' \<mapsto> safe_get g ''Nj'' JNull,
      ''latitudeOfFirstGridPoint'' \<mapsto> safe_get g ''latitudeOfFirstGridPointInDegrees'' JNull,
      ''longitudeOfFirstGridPoint'' \<mapsto> safe_get g ''longitudeOfFirstGridPointInDegrees'' JNull,
      ''latitudeOfLastGridPoint'' \<mapsto> safe_get g ''latitudeOfLastGridPointInDegrees'' JNull,
      ''longitudeOfLastGridPoint'' \<mapsto> safe_get g ''longitudeOfLastGridPointInDegrees'' JNull,
      ''iDirectionIncrement'' \<mapsto> safe_get g ''iDirectionIncrementInDegrees'' JNull,
      ''jDirectionIncrement'' \<mapsto> safe_get g ''jDirectionIncrementInDegrees'' JNull]"

text \<open>
  Lines 58 to 69, for a non-empty array \<open>v # vs\<close> of values: the count, the three
  statistics, the two samples, and the full array for the selected messages.
\<close>

definition value_info :: "nat \<Rightarrow> real \<Rightarrow> real list \<Rightarrow> message \<Rightarrow> message" where
  "value_info msg_num v vs info =
     (let vals = v # vs;
          info = info(''numValues'' \<mapsto> JInt (int (length vals)));
          info = info(''min'' \<mapsto> JFloat (fold min vs v));
          info = info(''max'' \<mapsto> JFloat (fold max vs v));
          info = info(''mean'' \<mapsto> JFloat (sum_list vals / real (length vals)));
          info = info(''first10'' \<mapsto> num_list (take 10 vals));
          info = info(''last10'' \<mapsto> num_list (drop (length vals - 10) vals))
      in if msg_num \<le> 5 \<or> (msg_num - 1) mod 51 < 2
         then info(''allValues'' \<mapsto> num_list vals) else info)"

text \<open>Lines 72 to 74: the values at the spot indices.\<close>

definition spot_info :: "real list \<Rightarrow> message \<Rightarrow> error + message" where
  "spot_info vals info =
     (let total = int (length vals);
          spot_indices = [0, 1, 2, total div 4, total div 2, 3 * total div 4,
                          total - 3, total - 2, total - 1]
      in case spot_values vals spot_indices [] of
           Inl e \<Rightarrow> Inl e
         | Inr items \<Rightarrow> Inr (info(''spotValues'' \<mapsto> JObj items)))"

text \<open>Lines 77 to 81: the first and the last point of the coordinate arrays.\<close>

definition latlon_info :: "grb \<Rightarrow> message \<Rightarrow> error + message" where
  "latlon_info g info =
     (case np_index (lats g) 0 of
        Inl e \<Rightarrow> Inl e
      | Inr first_lat \<Rightarrow>
          (case np_index (lons g) 0 of
             Inl e \<Rightarrow> Inl e
           | Inr first_lon \<Rightarrow>
               (case np_index (lats g) (- 1) of
                  Inl e \<Rightarrow> Inl e
                | Inr last_lat \<Rightarrow>
                    (case np_index (lons g) (- 1) of
                       Inl e \<Rightarrow> Inl e
                     | Inr last_lon \<Rightarrow>
                         Inr (info(''firstLat'' \<mapsto> JFloat first_lat,
                                   ''firstLon'' \<mapsto> JFloat first_lon,
                                   ''lastLat'' \<mapsto> JFloat last_lat,
                                   ''lastLon'' \<mapsto> JFloat last_lon))))))"

text \<open>
  Lines 23 to 83, the body of the loop for the message at index \<open>i\<close> of the file:
  the dictionary \<open>info\<close>, or the exception that stops the script. \<open>values.min()\<close>
  raises \<open>ValueError\<close> on an empty array.
\<close>

definition extract_record :: "nat \<Rightarrow> grb \<Rightarrow> error + message" where
  "extract_record i g =
     (let msg_num = i + 1 in
      case validDate g of
        Inl e \<Rightarrow> Inl e
      | Inr valid_date \<Rightarrow>
          (case grb_values g of
             [] \<Rightarrow> Inl ValueError
           | v # vs \<Rightarrow>
               (case spot_info (v # vs) (value_info msg_num v vs (basic_info msg_num g valid_date)) of
                  Inl e \<Rightarrow> Inl e
                | Inr info \<Rightarrow> latlon_info g info)))"

text \<open>
  \<open>for i, grb in enumerate(grbs)\<close> from index \<open>i\<close> on, appending to \<open>results\<close>.
\<close>

fun extract_records :: "nat \<Rightarrow> grb list \<Rightarrow> message list \<Rightarrow> error + message list" where
  "extract_records i [] results = Inr results"
| "extract_records i (g # gs) results =
     (case extract_record i g of
        Inl e \<Rightarrow> Inl e
      | Inr info \<Rightarrow> extract_records (Suc i) gs (results @ [info]))"

text \<open>
  \<open>main\<close> of compare\_pygrib.py, for the messages of the opened file: the list
  \<open>results\<close> that it prints as JSON.
\<close>

definition main_compare_pygrib :: "grb list \<Rightarrow> error + message list" where
  "main_compare_pygrib grbs = extract_records 0 grbs []"

section \<open>Example inputs and predicates of the properties\<close>

text \<open>
  A record of the reference decoder as the extractor writes it for a sampled message, and
  a record of the decoder under test that has the same samples and differs in the mean,
  in the grid width and in the parameter indicator.
\<close>

definition reference_message :: message where
  "reference_message =
     [''parameterName'' \<mapsto> JStr ''U'',
      ''first10'' \<mapsto> num_list [1], ''last10'' \<mapsto> num_list [1],
      ''min'' \<mapsto> JFloat 1, ''max'' \<mapsto> JFloat 1, ''mean'' \<mapsto> JFloat 1,
      ''Ni'' \<mapsto> JInt 1, ''Nj'' \<mapsto> JInt 1, ''indicatorOfParameter'' \<mapsto> JInt 33]"

definition differing_message :: message where
  "differing_message =
     reference_message(''mean'' \<mapsto> JFloat 2, ''Ni'' \<mapsto> JInt 2,
       ''indicatorOfParameter'' \<mapsto> JInt 34)"

text \<open>The same record without its grid width.\<close>

definition message_without_Ni :: message where
  "message_without_Ni = reference_message(''Ni'' := None)"

text \<open>
  A record with the parameter name and the three statistics only: it has no value
  payload, no grid size and no parameter indicator.
\<close>

definition bare_message :: message where
  "bare_message =
     [''parameterName'' \<mapsto> JStr ''U'',
      ''min'' \<mapsto> JFloat 1, ''max'' \<mapsto> JFloat 1, ''mean'' \<mapsto> JFloat 1]"

text \<open>A decoded message with three values on a one-point coordinate grid.\<close>

definition sample_grb :: grb where
  "sample_grb =
     \<lparr>attrs = Map.empty, analDate = None, validDate = Inr ''2026-02-01 06:00:00'',
      grb_values = [1, 2, 3], lats = [- 31], lons = [145]\<rparr>"

text \<open>
  A stand-in for \<open>json.loads\<close> in examples: it rejects the empty text and returns any
  other text as it is.
\<close>

definition loads_nonempty :: "pystr \<Rightarrow> error + pystr" where
  "loads_nonempty text = (if text = [] then Inl JSONDecodeError else Inr text)"

text \<open>
  What a run of the comparison leaves behind: whether it reached the end of \<open>main\<close>,
  the text it printed, and the discrepancies it recorded in a category (none when it
  stopped before the buckets existed).
\<close>

definition completed :: "run \<Rightarrow> bool" where
  "completed r = (case r of Completed st \<Rightarrow> True | _ \<Rightarrow> False)"

definition text_of :: "run \<Rightarrow> out list" where
  "text_of r =
     (case r of Aborted text \<Rightarrow> text | Raised e st \<Rightarrow> printed st | Completed st \<Rightarrow> printed st)"

definition recorded :: "run \<Rightarrow> category \<Rightarrow> issue list" where
  "recorded r c =
     (case r of Aborted text \<Rightarrow> [] | Raised e st \<Rightarrow> issues st c | Completed st \<Rightarrow> issues st c)"

text \<open>The lines that report the value check of one message: lines 89, 104, 113, 119.\<close>

fun message_line :: "out \<Rightarrow> bool" where
  "message_line (FailValues n) = True"
| "message_line (OkValues n name detail) = True"
| "message_line (FailSample n name) = True"
| "message_line (OkSample n name) = True"
| "message_line line = False"

text \<open>The three statistics, which the comparison pass reads with \<open>pg[key]\<close>.\<close>

definition statistics :: "string list" where
  "statistics = [''min'', ''max'', ''mean'']"

text \<open>
  The outcome of an array comparison, apart from the numbers in its summary: a pass, a
  length mismatch, values beyond the tolerance, or an exception.
\<close>

datatype outcome = Passes | LengthMismatches | ExceedsTolerance | Raises error

definition outcome :: "error + bool \<times> summary \<Rightarrow> outcome" where
  "outcome r =
     (case r of
        Inl e \<Rightarrow> Raises e
      | Inr (match, LengthMismatch m n) \<Rightarrow> LengthMismatches
      | Inr (match, MaxDiffAt d i k) \<Rightarrow> ExceedsTolerance
      | Inr (match, MaxDiff d) \<Rightarrow> Passes)"

text \<open>
  \<open>a <= b\<close> on numbers, and the property "the absolute difference of two elements is at
  most the tolerance", for the difference that the script computes.
\<close>

definition py_le :: "pynum \<Rightarrow> pynum \<Rightarrow> bool" where
  "py_le a b = (py_less a b \<or> py_num_eq a b)"


text \<open>A number that is NaN.\<close>

definition is_nan :: "pynum \<Rightarrow> bool" where
  "is_nan a = (exact a = NaN)"

text \<open>The value payloads that a record has, among the three the comparison reads.\<close>

definition payload_keys :: "message \<Rightarrow> string list" where
  "payload_keys info = filter (\<lambda>key. info key \<noteq> None) [''allValues'', ''first10'', ''last10'']"

text \<open>A record carries a list of keys when each of them is present.\<close>

definition carries :: "message \<Rightarrow> string list \<Rightarrow> bool" where
  "carries info keys = list_all (\<lambda>key. info key \<noteq> None) keys"

section \<open>Properties of the vector-to-polar conversion\<close>

text \<open>
  \<open>arctan2\<close> is the polar angle: its value lies in \<open>[-pi, pi]\<close> and turns the length of
  \<open>(x, y)\<close> back into \<open>x\<close> and \<open>y\<close>.
\<close>

lemma arctan2_polar:
  fixes x y :: sfloat
  defines "a \<equiv> val (arctan2 y x)"
  shows "- pi \<le> a \<and> a \<le> pi \<and>
         val x = sqrt ((val x)\<^sup>2 + (val y)\<^sup>2) * cos a \<and>
         val y = sqrt ((val x)\<^sup>2 + (val y)\<^sup>2) * sin a"
proof -
  let ?x = "val x" and ?y = "val y"
  consider "0 < ?x" | "?x < 0" "0 < ?y \<or> y = Fl 0" | "?x < 0" "\<not> (0 < ?y \<or> y = Fl 0)"
    | "?x = 0" "0 < ?y" | "?x = 0" "?y < 0" | "?x = 0" "?y = 0"
    by linarith
  then show ?thesis
  proof cases
    case 1
    then have a: "a = arctan (?y / ?x)"
      by (cases y) (auto simp: a_def arctan2_def)
    have r: "sqrt (?x\<^sup>2 + ?y\<^sup>2) = ?x * sqrt (1 + (?y / ?x)\<^sup>2)"
    proof -
      have "?x\<^sup>2 + ?y\<^sup>2 = ?x\<^sup>2 * (1 + (?y / ?x)\<^sup>2)"
        using 1 by (simp add: field_simps power2_eq_square)
      then show ?thesis using 1 by (simp add: real_sqrt_mult)
    qed
    have pos: "sqrt (1 + (?y / ?x)\<^sup>2) > 0"
      by (simp add: add_pos_nonneg)
    have bounds: "- pi \<le> a \<and> a \<le> pi"
      using arctan_bounded [of "?y / ?x"] pi_gt_zero unfolding a by linarith
    have "?x = sqrt (?x\<^sup>2 + ?y\<^sup>2) * cos a"
      unfolding r a cos_arctan using pos by simp
    moreover have "?y = sqrt (?x\<^sup>2 + ?y\<^sup>2) * sin a"
      unfolding r a sin_arctan using pos 1 by simp
    ultimately show ?thesis using bounds by blast
  next
    case 2
    then have a: "a = arctan (?y / ?x) + pi"
      by (auto simp: a_def arctan2_def)
    have r: "sqrt (?x\<^sup>2 + ?y\<^sup>2) = - ?x * sqrt (1 + (?y / ?x)\<^sup>2)"
    proof -
      have "?x\<^sup>2 + ?y\<^sup>2 = (- ?x)\<^sup>2 * (1 + (?y / ?x)\<^sup>2)"
        using 2 by (simp add: field_simps power2_eq_square)
      then show ?thesis using 2 by (simp add: real_sqrt_mult)
    qed
    have pos: "sqrt (1 + (?y / ?x)\<^sup>2) > 0"
      by (simp add: add_pos_nonneg)
    have "0 \<le> ?y" using 2 by auto
    then have "?y / ?x \<le> 0" using 2 by (simp add: divide_nonneg_neg)
    then have "arctan (?y / ?x) \<le> 0"
      using arctan_monotone' [of "?y / ?x" 0] by simp
    then have bounds: "- pi \<le> a \<and> a \<le> pi"
      using arctan_bounded [of "?y / ?x"] pi_gt_zero unfolding a by linarith
    have "?x = sqrt (?x\<^sup>2 + ?y\<^sup>2) * cos a"
      unfolding r a using pos by (simp add: cos_arctan)
    moreover have "?y = sqrt (?x\<^sup>2 + ?y\<^sup>2) * sin a"
      unfolding r a using pos 2 by (simp add: sin_arctan)
    ultimately show ?thesis using bounds by blast
  next
    case 3
    then have a: "a = arctan (?y / ?x) - pi"
      by (auto simp: a_def arctan2_def)
    have r: "sqrt (?x\<^sup>2 + ?y\<^sup>2) = - ?x * sqrt (1 + (?y / ?x)\<^sup>2)"
    proof -
      have "?x\<^sup>2 + ?y\<^sup>2 = (- ?x)\<^sup>2 * (1 + (?y / ?x)\<^sup>2)"
        using 3 by (simp add: field_simps power2_eq_square)
      then show ?thesis using 3 by (simp add: real_sqrt_mult)
    qed
    have pos: "sqrt (1 + (?y / ?x)\<^sup>2) > 0"
      by (simp add: add_pos_nonneg)
    have "?y \<le> 0" using 3 by auto
    then have "0 \<le> ?y / ?x" using 3 by (simp add: divide_nonpos_neg)
    then have "0 \<le> arctan (?y / ?x)"
      using arctan_monotone' [of 0 "?y / ?x"] by simp
    then have bounds: "- pi \<le> a \<and> a \<le> pi"
      using arctan_bounded [of "?y / ?x"] pi_gt_zero unfolding a by linarith
    have "?x = sqrt (?x\<^sup>2 + ?y\<^sup>2) * cos a"
      unfolding r a using pos by (simp add: cos_arctan)
    moreover have "?y = sqrt (?x\<^sup>2 + ?y\<^sup>2) * sin a"
      unfolding r a using pos 3 by (simp add: sin_arctan)
    ultimately show ?thesis using bounds by blast
  next
    case 4
    then have a: "a = pi / 2" by (simp add: a_def arctan2_def)
    have bounds: "- pi \<le> a \<and> a \<le> pi"
      unfolding a using pi_gt_zero by linarith
    have "?x = sqrt (?x\<^sup>2 + ?y\<^sup>2) * cos a \<and> ?y = sqrt (?x\<^sup>2 + ?y\<^sup>2) * sin a"
      unfolding a using 4 by simp
    with bounds show ?thesis by blast
  next
    case 5
    then have a: "a = - (pi / 2)" by (simp add: a_def arctan2_def)
    have bounds: "- pi \<le> a \<and> a \<le> pi"
      unfolding a using pi_gt_zero by linarith
    have "?x = sqrt (?x\<^sup>2 + ?y\<^sup>2) * cos a \<and> ?y = sqrt (?x\<^sup>2 + ?y\<^sup>2) * sin a"
      unfolding a using 5 by simp
    with bounds show ?thesis by blast
  next
    case 6
    then have "a = 0 \<or> a = pi \<or> a = - pi"
      by (cases x; cases y) (auto simp: a_def arctan2_def)
    moreover have "0 \<le> pi" using pi_gt_zero by linarith
    ultimately show ?thesis using 6 by auto
  qed
qed

text \<open>The conversion returns a non-negative speed and a direction in \<open>[0, 360)\<close>.\<close>

lemma calc_wind_direction_range:
  assumes "calc_wind_direction u v = (speed, direction)"
  shows "0 \<le> val speed \<and> 0 \<le> val direction \<and> val direction < 360"
proof -
  define a where "a = arctan2 (as_float (py_neg u)) (as_float (py_neg v))"
  from arctan2_polar [where x = "as_float (py_neg v)" and y = "as_float (py_neg u)"]
  have "- pi \<le> val a" "val a \<le> pi" by (simp_all add: a_def)
  then have "- 180 \<le> val a * (180 / pi)" "val a * (180 / pi) \<le> 180"
    using pi_gt_zero by (simp_all add: field_simps)
  then have d: "- 180 \<le> val (degrees a)" "val (degrees a) \<le> 180"
    by (cases a; simp)+
  from assms have "speed = Fl (sqrt ((val (as_float u))\<^sup>2 + (val (as_float v))\<^sup>2))"
    and "direction = (if val (degrees a) < 0 then Fl (val (degrees a) + 360) else degrees a)"
    by (auto simp: calc_wind_direction_def Let_def a_def split: if_splits)
  with d show ?thesis by auto
qed

lemma compass_sectors:
  "compass 0 = ''N''" "compass 22.5 = ''NE''" "compass 180 = ''S''" "compass 337.5 = ''N''"
  by (simp_all add: compass_def)

lemma arctan_minus_one: "arctan (- 1) = - (pi / 4)"
  by (simp add: arctan_minus arctan_one)

text \<open>The rows of the table for the integers of \<open>test_cases\<close>.\<close>

lemma direction_cardinal:
  "calc_wind_direction (IntArg 0) (IntArg (- 1)) = (Fl 1, Fl 0)"
  "calc_wind_direction (IntArg 1) (IntArg 0) = (Fl 1, Fl 270)"
  "calc_wind_direction (IntArg 0) (IntArg 1) = (Fl 1, Fl 180)"
  "calc_wind_direction (IntArg (- 1)) (IntArg 0) = (Fl 1, Fl 90)"
  by (simp_all add: calc_wind_direction_def arctan2_def Let_def)

lemma direction_diagonal:
  "calc_wind_direction (IntArg 1) (IntArg (- 1)) = (Fl (sqrt 2), Fl 315)"
  "calc_wind_direction (IntArg (- 1)) (IntArg (- 1)) = (Fl (sqrt 2), Fl 45)"
  "calc_wind_direction (IntArg (- 1)) (IntArg 1) = (Fl (sqrt 2), Fl 135)"
  "calc_wind_direction (IntArg 1) (IntArg 1) = (Fl (sqrt 2), Fl 225)"
  by (simp_all add: calc_wind_direction_def arctan2_def Let_def arctan_one arctan_minus_one)

text \<open>The same rows for floats; a zero component is then negated to \<open>-0.0\<close>.\<close>

lemma direction_cardinal_float:
  "calc_wind_direction (FloatArg (Fl 0)) (FloatArg (Fl (- 1))) = (Fl 1, NegZero)"
  "calc_wind_direction (FloatArg (Fl 1)) (FloatArg (Fl 0)) = (Fl 1, Fl 270)"
  "calc_wind_direction (FloatArg (Fl 0)) (FloatArg (Fl 1)) = (Fl 1, Fl 180)"
  "calc_wind_direction (FloatArg (Fl (- 1))) (FloatArg (Fl 0)) = (Fl 1, Fl 90)"
  by (simp_all add: calc_wind_direction_def arctan2_def Let_def)

lemma direction_diagonal_float:
  "calc_wind_direction (FloatArg (Fl 1)) (FloatArg (Fl (- 1))) = (Fl (sqrt 2), Fl 315)"
  "calc_wind_direction (FloatArg (Fl (- 1))) (FloatArg (Fl (- 1))) = (Fl (sqrt 2), Fl 45)"
  "calc_wind_direction (FloatArg (Fl (- 1))) (FloatArg (Fl 1)) = (Fl (sqrt 2), Fl 135)"
  "calc_wind_direction (FloatArg (Fl 1)) (FloatArg (Fl 1)) = (Fl (sqrt 2), Fl 225)"
  by (simp_all add: calc_wind_direction_def arctan2_def Let_def arctan_one arctan_minus_one)

text \<open>
  At the origin the signs of the zeros decide. The direction is 180 exactly when the
  second argument of \<open>np.arctan2\<close> is \<open>-0.0\<close>, that is when \<open>v\<close> is the float \<open>0.0\<close>.
\<close>

lemma direction_origin:
  "calc_wind_direction (FloatArg (Fl 0)) (FloatArg (Fl 0)) = (Fl 0, Fl 180)"
  "calc_wind_direction (FloatArg NegZero) (FloatArg (Fl 0)) = (Fl 0, Fl 180)"
  "calc_wind_direction (IntArg 0) (FloatArg (Fl 0)) = (Fl 0, Fl 180)"
  "calc_wind_direction (IntArg 0) (IntArg 0) = (Fl 0, Fl 0)"
  "calc_wind_direction (FloatArg NegZero) (FloatArg NegZero) = (Fl 0, Fl 0)"
  "calc_wind_direction (FloatArg (Fl 0)) (FloatArg NegZero) = (Fl 0, NegZero)"
  "calc_wind_direction (FloatArg (Fl 0)) (IntArg 0) = (Fl 0, NegZero)"
  by (simp_all add: calc_wind_direction_def arctan2_def Let_def)

text \<open>
  Claim C1, as stated: the conversion meets every row of the table (0,-1) to 0, (1,0) to
  90, (0,1) to 180, (-1,0) to 270, (1,-1) to 45, (-1,-1) to 135, (-1,1) to 225 and (1,1)
  to 315 degrees, each within 1e-9 degrees. The row (1,0) fails: a wind with \<open>u = 1\<close>,
  \<open>v = 0\<close> blows toward the east, so it comes from the west, and the function returns
  the bearing of west, 270.
\<close>

theorem fixed_table_row_west_counterexample:
  "\<not> meets_table_entry (IntArg 1) (IntArg 0) 90"
  by (simp add: meets_table_entry_def direction_cardinal)

text \<open>
  Claim C1, amended. The conversion \<open>direction = atan2(-u, -v)\<close> in degrees, with 360
  added to a negative result, gives the bearing the wind comes from: (0,-1) gives 0,
  (1,0) gives 270, (0,1) gives 180, (-1,0) gives 90, (1,-1) gives 315, (-1,-1) gives 45,
  (-1,1) gives 135 and (1,1) gives 225 degrees, each within 1e-9 degrees, for the
  integers of the script's test list and for the same numbers as floats.
\<close>

theorem vector_to_polar_fixed_table:
  "meets_table_entry (IntArg 0) (IntArg (- 1)) 0 \<and>
   meets_table_entry (IntArg 1) (IntArg 0) 270 \<and>
   meets_table_entry (IntArg 0) (IntArg 1) 180 \<and>
   meets_table_entry (IntArg (- 1)) (IntArg 0) 90 \<and>
   meets_table_entry (IntArg 1) (IntArg (- 1)) 315 \<and>
   meets_table_entry (IntArg (- 1)) (IntArg (- 1)) 45 \<and>
   meets_table_entry (IntArg (- 1)) (IntArg 1) 135 \<and>
   meets_table_entry (IntArg 1) (IntArg 1) 225 \<and>
   meets_table_entry (FloatArg (Fl 0)) (FloatArg (Fl (- 1))) 0 \<and>
   meets_table_entry (FloatArg (Fl 1)) (FloatArg (Fl 0)) 270 \<and>
   meets_table_entry (FloatArg (Fl 0)) (FloatArg (Fl 1)) 180 \<and>
   meets_table_entry (FloatArg (Fl (- 1))) (FloatArg (Fl 0)) 90 \<and>
   meets_table_entry (FloatArg (Fl 1)) (FloatArg (Fl (- 1))) 315 \<and>
   meets_table_entry (FloatArg (Fl (- 1))) (FloatArg (Fl (- 1))) 45 \<and>
   meets_table_entry (FloatArg (Fl (- 1))) (FloatArg (Fl 1)) 135 \<and>
   meets_table_entry (FloatArg (Fl 1)) (FloatArg (Fl 1)) 225"
  by (simp add: meets_table_entry_def direction_cardinal direction_diagonal
      direction_cardinal_float direction_diagonal_float)

text \<open>
  Claim C9, as stated: for the degenerate input \<open>u = 0\<close>, \<open>v = 0\<close> the module returns
  speed 0 and direction exactly 180 degrees, in the sector "S". For the integers
  \<open>(0, 0)\<close>, the form in which the script's own test list passes its numbers, the negated
  components are the integer 0, \<open>np.arctan2\<close> receives two positive zeros and returns 0:
  the direction is 0, in the sector "N".
\<close>

theorem degenerate_integer_input_counterexample:
  "\<not> degenerate_as_specified (IntArg 0) (IntArg 0) \<and>
   calc_wind_direction (IntArg 0) (IntArg 0) = (Fl 0, Fl 0) \<and> compass 0 = ''N''"
  by (simp add: degenerate_as_specified_def direction_origin compass_def)

text \<open>
  Claim C9, amended. For the degenerate float input \<open>u = 0.0\<close>, \<open>v = 0.0\<close>, as the values
  of a grid are, the module returns speed 0 and direction exactly 180 degrees under the
  formula \<open>atan2(-u, -v)\<close> with the normalisation of negative results and no special
  case, and the compass sector of that direction is "S". The result rests on the sign of
  the zero that the negation of \<open>v\<close> produces: it is the same for every zero \<open>u\<close> when
  \<open>v\<close> is the float \<open>0.0\<close>, while the integer input \<open>(0, 0)\<close> and the float input
  \<open>(-0.0, -0.0)\<close> give speed 0 and direction 0.
\<close>

theorem degenerate_float_input:
  "degenerate_as_specified (FloatArg (Fl 0)) (FloatArg (Fl 0)) \<and>
   degenerate_as_specified (FloatArg NegZero) (FloatArg (Fl 0)) \<and>
   degenerate_as_specified (IntArg 0) (FloatArg (Fl 0)) \<and>
   calc_wind_direction (IntArg 0) (IntArg 0) = (Fl 0, Fl 0) \<and>
   calc_wind_direction (FloatArg NegZero) (FloatArg NegZero) = (Fl 0, Fl 0)"
  by (simp add: degenerate_as_specified_def direction_origin compass_def)

section \<open>Properties of the double arithmetic\<close>

lemma round_double_zero: "round_double 0 = Finite 0"
  by (simp add: round_double_def)


lemma round_double_minus_one: "round_double (- 1) = Finite (- 1)"
  by (simp add: round_double_def Let_def pow2_def round_half_even_def)

text \<open>
  A real between 1 and 2 lies in the binade of exponent 0, where the doubles are the
  multiples of \<open>pow2 (-52)\<close>: a small excess over 1 is rounded away.
\<close>

lemma floor_log2_one: "1 \<le> x \<Longrightarrow> x < 2 \<Longrightarrow> \<lfloor>log 2 x\<rfloor> = 0" for x :: real
  by (simp add: floor_eq_iff)

lemma round_double_near_one:
  assumes "0 \<le> d" and "d < 1 / 2 ^ 54"
  shows "round_double (1 + d) = Finite 1"
proof -
  from assms have x: "1 \<le> 1 + d" "1 + d < 2" "1 + d \<noteq> 0" "\<bar>1 + d\<bar> = 1 + d"
    by simp_all
  have fl: "\<lfloor>log 2 \<bar>1 + d\<bar>\<rfloor> = 0"
    unfolding x(4) using x(1,2) by (rule floor_log2_one)
  have e: "max (\<lfloor>log 2 \<bar>1 + d\<bar>\<rfloor> - 52) (- 1074) = - 52"
    unfolding fl by simp
  have q: "(1 + d) / pow2 (- 52) = 2 ^ 52 + d * 2 ^ 52"
    by (simp add: pow2_def field_simps)
  from assms have small: "0 \<le> d * 2 ^ 52" "d * 2 ^ 52 < 1 / 4"
    by simp_all
  then have f: "\<lfloor>2 ^ 52 + d * 2 ^ 52\<rfloor> = 2 ^ 52"
    by (simp add: floor_eq_iff)
  have r: "round_half_even (2 ^ 52 + d * 2 ^ 52) = 2 ^ 52"
    unfolding round_half_even_def Let_def f using small by simp
  have scaled: "real_of_int (2 ^ 52) * pow2 (- 52) = 1"
    by (simp add: pow2_def)
  show ?thesis
    unfolding round_double_def Let_def e q r scaled if_not_P [OF x(3)] by simp
qed

lemma int_to_float_zero: "int_to_float 0 = Inr (Finite 0)"
  by (simp add: int_to_float_def round_double_zero)




lemma nan_not_gt: "is_nan d \<Longrightarrow> \<not> py_gt d t"
  by (cases "exact t") (auto simp: py_gt_def py_less_def is_nan_def)

lemma nan_not_le: "is_nan d \<Longrightarrow> \<not> py_le d t"
  by (auto simp: py_le_def py_less_def py_num_eq_def is_nan_def)

section \<open>Properties of the payload extractor\<close>

lemma collect_lines_found: "collect_lines ls True acc = acc @ ls"
  by (induction ls arbitrary: acc) simp_all

lemma collect_lines_scanning:
  "collect_lines ls False acc = acc @ dropWhile (\<lambda>line. strip line \<noteq> marker) ls"
  by (induction ls arbitrary: acc) (simp_all add: collect_lines_found)

lemma json_content_eq: "json_content content = payload_after_marker content"
  by (simp add: json_content_def payload_after_marker_def collect_lines_scanning)

lemma split_not_Nil: "split sep s \<noteq> []"
  by (induction s) (auto split: list.splits)

lemma join_split: "join sep (split sep s) = s"
proof (induction s)
  case Nil
  show ?case by simp
next
  case (Cons c cs)
  obtain l ls where eq: "split sep cs = l # ls"
    using split_not_Nil [of sep cs] by (cases "split sep cs") auto
  show ?case
  proof (cases "c = sep")
    case True
    with Cons eq show ?thesis by simp
  next
    case False
    with Cons eq show ?thesis by (cases ls) auto
  qed
qed

lemma join_append:
  "xs \<noteq> [] \<Longrightarrow> ys \<noteq> [] \<Longrightarrow> join sep (xs @ ys) = join sep xs @ sep # join sep ys"
proof (induction xs rule: join.induct)
  case (1 sep)
  then show ?case by simp
next
  case (2 sep l)
  then show ?case by (cases ys) simp_all
next
  case (3 sep l l' ls)
  then show ?case by simp
qed

text \<open>
  The payload is the tail of the text from the first marker line on, line breaks
  included: what is discarded is empty or ends with the line break before the marker.
\<close>

lemma payload_is_suffix:
  assumes "\<exists>line \<in> set (split LF content). strip line = marker"
  shows "\<exists>discarded. content = discarded @ payload_after_marker content \<and>
           (discarded = [] \<or> last discarded = LF)"
proof -
  let ?P = "\<lambda>line. strip line \<noteq> marker"
  let ?before = "takeWhile ?P (split LF content)"
  let ?after = "dropWhile ?P (split LF content)"
  have after: "?after \<noteq> []"
    using assms by auto
  have whole: "join LF (?before @ ?after) = content"
    by (simp add: join_split)
  show ?thesis
  proof (cases "?before = []")
    case True
    with whole have "content = [] @ payload_after_marker content"
      by (simp add: payload_after_marker_def)
    then show ?thesis by blast
  next
    case False
    from join_append [OF False after, of LF] whole
    have "content = (join LF ?before @ [LF]) @ payload_after_marker content"
      by (simp add: payload_after_marker_def)
    then show ?thesis by (metis last_snoc)
  qed
qed

text \<open>
  Claim C4. For every input text the extractor discards the lines strictly before the
  first line whose trimmed content is exactly \<open>[\<close>, concatenates that line and every
  later line with their line breaks, and parses the result; when no line is a marker,
  the parser receives the empty text and the extraction fails with the parser's error
  (\<open>json.JSONDecodeError\<close>, the MalformedPayload of the specification) instead of
  returning a payload.
\<close>

theorem load_json_after_marker:
  "load_json loads content = loads (payload_after_marker content) \<and>
   ((\<forall>line \<in> set (split LF content). strip line \<noteq> marker) \<longrightarrow>
    loads [] = Inl JSONDecodeError \<longrightarrow>
    load_json loads content = Inl JSONDecodeError)"
proof -
  have "payload_after_marker content = []"
    if "\<forall>line \<in> set (split LF content). strip line \<noteq> marker"
  proof -
    from that have none: "dropWhile (\<lambda>line. strip line \<noteq> marker) (split LF content) = []"
      by simp
    show ?thesis unfolding payload_after_marker_def none by simp
  qed
  then show ?thesis
    by (auto simp: load_json_def json_content_eq)
qed

theorem load_json_after_marker_witness:
  "load_json loads_nonempty [120, 10, 32, 91, 10, 93] = Inr [32, 91, 10, 93] \<and>
   load_json loads_nonempty [120] = Inl JSONDecodeError"
  using load_json_after_marker [of loads_nonempty "[120, 10, 32, 91, 10, 93]"]
    load_json_after_marker [of loads_nonempty "[120]"]
  by (simp add: payload_after_marker_def loads_nonempty_def LF_def marker_def strip_def
      isspace_def)

section \<open>Properties of the tolerant comparator\<close>


text \<open>On floats no step of the comparison raises: the differences are floats.\<close>

lemma float_differences:
  "length a = length b \<Longrightarrow>
   map (\<lambda>(pv, sv). py_abs_diff pv sv)
     (zip (map (\<lambda>x. JNum (PyFloat x)) a) (map (\<lambda>y. JNum (PyFloat y)) b))
   = map Inr (map (\<lambda>(x, y). PyFloat (double_abs (double_sub x y))) (zip a b))"
  by (induction a b rule: list_induct2) (simp_all add: py_abs_diff_def)

lemma float_differences_format:
  "list_all formats_as_float (map (\<lambda>(x, y). PyFloat (double_abs (double_sub x y))) pairs)"
  by (induction pairs) auto

lemma compare_values_length_mismatch:
  "length ps \<noteq> length ss \<Longrightarrow>
   compare_values (JArr ps) (JArr ss) tolerance
     = Inr (False, LengthMismatch (length ps) (length ss))"
  by (simp add: compare_values_def)

text \<open>
  The difference is the one that double subtraction computes, not the exact one: for
  \<open>[1.0]\<close> and \<open>[-2**-60]\<close> at the tolerance \<open>1.0\<close> the exact difference exceeds the
  tolerance, the computed difference is \<open>1.0\<close>, and the comparison passes.
\<close>

lemma rounding_absorbs_difference:
  "compare_values (JArr [JFloat 1]) (JArr [JFloat (- (1 / 2 ^ 60))]) (PyFloat (Finite 1))
     = Inr (True, MaxDiff (PyFloat (Finite 1))) \<and>
   (1 :: real) < \<bar>1 - (- (1 / 2 ^ 60))\<bar>"
proof -
  have "round_double (1 - (- (1 / 2 ^ 60))) = Finite 1"
    using round_double_near_one [of "1 / 2 ^ 60"] by simp
  then show ?thesis
    by (simp add: compare_values_def py_abs_diff_def py_gt_def py_less_def Let_def)
qed




text \<open>
  Claim C8. For two lists of different lengths the array comparison reports the same
  length-mismatch outcome in either order of the arguments: both calls fail, each with
  the length-mismatch summary, which names the two lengths in the order of its
  arguments.
\<close>

theorem length_mismatch_either_order:
  "length ps \<noteq> length ss \<Longrightarrow>
   outcome (compare_values (JArr ps) (JArr ss) tolerance)
     = outcome (compare_values (JArr ss) (JArr ps) tolerance) \<and>
   outcome (compare_values (JArr ps) (JArr ss) tolerance) = LengthMismatches \<and>
   compare_values (JArr ps) (JArr ss) tolerance
     = Inr (False, LengthMismatch (length ps) (length ss)) \<and>
   compare_values (JArr ss) (JArr ps) tolerance
     = Inr (False, LengthMismatch (length ss) (length ps))"
  using compare_values_length_mismatch [of ps ss] compare_values_length_mismatch [of ss ps]
  by (simp add: outcome_def)

theorem length_mismatch_either_order_witness:
  "outcome (compare_values (num_list [1, 2]) (num_list [1]) default_tolerance)
     = outcome (compare_values (num_list [1]) (num_list [1, 2]) default_tolerance) \<and>
   compare_values (num_list [1, 2]) (num_list [1]) default_tolerance
     = Inr (False, LengthMismatch 2 1) \<and>
   compare_values (num_list [1]) (num_list [1, 2]) default_tolerance
     = Inr (False, LengthMismatch 1 2)"
  using length_mismatch_either_order [of "[JFloat 1, JFloat 2]" "[JFloat 1]" default_tolerance]
  by (simp add: num_list_def outcome_def)

text \<open>
  Claim C10. For two empty lists and any tolerance the array comparison passes, with a
  summary that reports the maximum difference 0.
\<close>

theorem compare_values_empty:
  "compare_values (num_list []) (num_list []) tolerance = Inr (True, MaxDiff (PyInt 0))"
  by (simp add: compare_values_def num_list_def int_to_float_zero)

section \<open>Properties of the discrepancy aggregator\<close>

lemma compare_one:
  "compare_values (num_list [1]) (num_list [1]) default_tolerance = Inr (True, MaxDiff (PyInt 0))"
  by (simp add: compare_values_def num_list_def default_tolerance_def literal_1e_6_def
      py_abs_diff_def py_gt_def py_less_def round_double_zero int_to_float_zero)

lemma sampled_payload_ok:
  assumes "pg ''allValues'' = None \<or> sg ''allValues'' = None"
    and "pg ''parameterName'' = Some (JStr name)"
    and "pg ''first10'' = Some (num_list [1])" "pg ''last10'' = Some (num_list [1])"
    and "sg ''first10'' = Some (num_list [1])" "sg ''last10'' = Some (num_list [1])"
  shows "compare_payload n pg sg st = (None, print (OkSample n (take 30 name)) st)"
  using assms
  by (auto simp: compare_payload_def compare_one py_item_def report_sample_def
      parameter_name30_def split: option.splits)

lemma statistics_same:
  "sg ''min'' = pg ''min'' \<Longrightarrow> sg ''max'' = pg ''max'' \<Longrightarrow> sg ''mean'' = pg ''mean'' \<Longrightarrow>
   pg ''min'' = Some (JFloat a) \<Longrightarrow> pg ''max'' = Some (JFloat b) \<Longrightarrow>
   pg ''mean'' = Some (JFloat c) \<Longrightarrow>
   compare_statistics n pg sg st = (None, st)"
  by (simp add: compare_statistics_def compare_statistic_def and_then_def py_item_def
      py_abs_diff_def py_gt_def py_less_def literal_1e_6_def literal_1e_4_def
      round_double_zero)

text \<open>A statistic that a record lacks stops the run: \<open>pg["min"]\<close> raises.\<close>

lemma missing_statistic_raises:
  "pg ''min'' = None \<Longrightarrow> compare_statistics n pg sg st = (Some KeyError, st)"
  by (simp add: compare_statistics_def compare_statistic_def and_then_def py_item_def)

lemma py_eq_null_iff: "py_eq v JNull \<longleftrightarrow> v = JNull"
  by (cases v) simp_all

lemma py_eq_null_left_iff: "py_eq JNull v \<longleftrightarrow> v = JNull"
  by (cases v) simp_all

text \<open>
  The statistics, the grid and the parameter indicator never touch \<open>all_match\<close>: only
  the comparison of the value arrays sets it.
\<close>

lemma statistics_keep_all_match:
  "compare_statistics n pg sg st = (r, st') \<Longrightarrow> all_match st' = all_match st"
  by (auto simp: compare_statistics_def compare_statistic_def and_then_def append_issue_def
      split: sum.splits option.splits if_splits prod.splits)

lemma grid_keeps_all_match:
  "compare_grid n pg sg st = (r, st') \<Longrightarrow> all_match st' = all_match st"
  by (auto simp: compare_grid_def append_issue_def split: if_splits)

lemma parameter_id_keeps_all_match:
  "compare_parameter_id n pg sg st = (r, st') \<Longrightarrow> all_match st' = all_match st"
  by (auto simp: compare_parameter_id_def append_issue_def split: if_splits)

subsection \<open>The detail table\<close>

text \<open>What is printed is never taken back.\<close>

lemma print_rows_grows:
  "print_rows row pg_vals sg_vals js st = (r, st') \<Longrightarrow> set (printed st) \<subseteq> set (printed st')"
proof (induction js arbitrary: st)
  case Nil
  then show ?case by simp
next
  case (Cons j js)
  show ?case
  proof (cases "element_diff pg_vals sg_vals j")
    case (Inl e)
    with Cons.prems show ?thesis by simp
  next
    case (Inr t)
    obtain pv sv diff where t: "t = (pv, sv, diff)" by (cases t)
    show ?thesis
    proof (cases "formats_as_float pv \<and> formats_as_float sv \<and> formats_as_float diff")
      case True
      with Cons.prems Inr t
      have "print_rows row pg_vals sg_vals js
          (print (row j pv sv diff (py_less diff literal_1e_6)) st) = (r, st')"
        by simp
      from Cons.IH [OF this] show ?thesis by (auto simp: print_def)
    next
      case False
      with Cons.prems Inr t show ?thesis by auto
    qed
  qed
qed

lemma print_first20_grows:
  "print_first20 pg sg st = (r, st') \<Longrightarrow> set (printed st) \<subseteq> set (printed st')"
  by (auto simp: print_first20_def print_first_rows_def print_def Let_def
      split: option.splits dest!: print_rows_grows)

text \<open>When the loop over the fields ends without an exception, every row is printed.\<close>

lemma print_detail_rows_printed:
  "print_detail_rows pg sg fs st = (None, st') \<Longrightarrow>
   set (printed st) \<subseteq> set (printed st') \<and>
   (\<forall>field \<in> set fs. \<exists>row. detail_row pg sg field = Inr row \<and> row \<in> set (printed st'))"
proof (induction fs arbitrary: st)
  case Nil
  then show ?case by simp
next
  case (Cons field fs)
  from Cons.prems obtain row where row: "detail_row pg sg field = Inr row"
    and rest: "print_detail_rows pg sg fs (print row st) = (None, st')"
    by (auto split: sum.splits)
  from Cons.IH [OF rest] row show ?case by (auto simp: print_def)
qed

lemma completed_run_prints_rows:
  assumes "main_compare_outputs (pg # pgs) (sg # sgs) = Completed final"
    and "field \<in> set detail_fields"
  shows "\<exists>row. detail_row pg sg field = Inr row \<and> row \<in> set (printed final)"
proof -
  from assms(1) obtain st0 where
    detail: "print_detail (pg # pgs) (sg # sgs) st0 = (None, final)"
    by (auto simp: main_compare_outputs_def Let_def split: if_splits prod.splits option.splits)
  then obtain st1 where
    rows: "print_detail_rows pg sg detail_fields (print DetailHeader (print DetailBanner st0))
             = (None, st1)"
    and first20: "print_first20 pg sg st1 = (None, final)"
    by (auto simp: print_detail_def Let_def split: prod.splits option.splits)
  from print_detail_rows_printed [OF rows] assms(2) obtain row where
    "detail_row pg sg field = Inr row" "row \<in> set (printed st1)"
    by blast
  with print_first20_grows [OF first20] show ?thesis by blast
qed

lemma detail_row_missing:
  "pg key = None \<or> sg key = None \<Longrightarrow>
   detail_row pg sg (label, key) =
     Inr (DetailRow label (py_get_default pg key (JStr ''N/A''))
            (py_get_default sg key (JStr ''N/A'')) NA)"
  by (auto simp: detail_row_def check_match_def py_get_default_def Let_def)

lemma detail_row_is_row:
  "detail_row pg sg field = Inr row \<Longrightarrow> \<exists>pv sv m. row = DetailRow (fst field) pv sv m"
  by (auto simp: detail_row_def Let_def split: sum.splits)

lemma print_detail_rows_ok:
  assumes "\<forall>field \<in> set fs. \<exists>row. detail_row pg sg field = Inr row"
  shows "\<exists>rows. print_detail_rows pg sg fs st = (None, st\<lparr>printed := printed st @ rows\<rparr>) \<and>
           (\<forall>row \<in> set rows. \<exists>label pv sv m. row = DetailRow label pv sv m)"
  using assms
proof (induction fs arbitrary: st)
  case Nil
  show ?case by (rule exI [of _ "[]"]) simp
next
  case (Cons field fs)
  then obtain row where row: "detail_row pg sg field = Inr row" by auto
  from detail_row_is_row [OF row] obtain pv sv m where
    shape: "row = DetailRow (fst field) pv sv m" by blast
  from Cons.IH [of "print row st"] Cons.prems obtain rows where
    rest: "print_detail_rows pg sg fs (print row st)
             = (None, (print row st)\<lparr>printed := printed (print row st) @ rows\<rparr>)"
    and rows: "\<forall>row \<in> set rows. \<exists>label pv sv m. row = DetailRow label pv sv m"
    by auto
  show ?case
    by (rule exI [of _ "row # rows"]) (use row rest rows shape in \<open>simp add: print_def\<close>)
qed

text \<open>
  A run over one pair of messages whose comparison pass ends in the state \<open>st1\<close>, when
  a value array is missing and every row of the detail table can be computed: the run
  completes, and after the summary it prints the table and the banner of the value
  comparison.
\<close>

lemma single_message_run:
  assumes "compare_message 1 pg sg
      \<lparr>all_match = True, issues = (\<lambda>c. []),
         printed = [Banner, MessageCounts 1 1, Comparing 1]\<rparr> = (None, st1)"
    and "pg ''allValues'' = None \<or> sg ''allValues'' = None"
    and "\<forall>field \<in> set detail_fields. \<exists>row. detail_row pg sg field = Inr row"
  shows "\<exists>rows. main_compare_outputs [pg] [sg] =
           Completed ((print_summary st1)\<lparr>printed := printed (print_summary st1)
              @ [DetailBanner, DetailHeader] @ rows @ [First20Banner]\<rparr>) \<and>
           (\<forall>row \<in> set rows. \<exists>label pv sv m. row = DetailRow label pv sv m)"
proof -
  let ?st2 = "print DetailHeader (print DetailBanner (print_summary st1))"
  from print_detail_rows_ok [OF assms(3), of ?st2] obtain rows where
    run: "print_detail_rows pg sg detail_fields ?st2 = (None, ?st2\<lparr>printed := printed ?st2 @ rows\<rparr>)"
    and rows: "\<forall>row \<in> set rows. \<exists>label pv sv m. row = DetailRow label pv sv m"
    by blast
  have "print_first20 pg sg (?st2\<lparr>printed := printed ?st2 @ rows\<rparr>)
      = (None, print First20Banner (?st2\<lparr>printed := printed ?st2 @ rows\<rparr>))"
    using assms(2) by (auto simp: print_first20_def Let_def split: option.splits)
  with run have "print_detail [pg] [sg] (print_summary st1) =
      (None, (print_summary st1)\<lparr>printed := printed (print_summary st1)
              @ [DetailBanner, DetailHeader] @ rows @ [First20Banner]\<rparr>)"
    by (simp add: print_detail_def Let_def print_def)
  with assms(1) rows show ?thesis
    by (intro exI [of _ rows]) (simp add: main_compare_outputs_def Let_def)
qed

lemmas row_defs =
  detail_fields_def detail_row_def check_match_def py_get_default_def py_abs_diff_def
  py_less_def literal_1e_6_def round_double_zero round_double_minus_one Let_def

lemma rows_reference_differing:
  "\<forall>field \<in> set detail_fields. \<exists>row. detail_row reference_message differing_message field = Inr row"
  by (simp add: row_defs reference_message_def differing_message_def)

lemma statistics_differing:
  "compare_statistics n reference_message differing_message st =
     (None, append_issue Values (MeanDiffers n (JFloat 1) (JFloat 2)) st)"
  by (simp add: compare_statistics_def compare_statistic_def and_then_def py_item_def
      reference_message_def differing_message_def py_abs_diff_def py_gt_def py_less_def
      literal_1e_6_def literal_1e_4_def round_double_zero round_double_minus_one)

lemma grid_differing:
  "compare_grid n reference_message differing_message st =
     (None, append_issue Grid (GridSizeDiffers n) st)"
  by (simp add: compare_grid_def py_get_def reference_message_def differing_message_def
      py_num_eq_def)

lemma parameter_id_differing:
  "compare_parameter_id n reference_message differing_message st =
     (None, append_issue Metadata (ParameterIdDiffers n (JInt 33) (JInt 34)) st)"
  by (simp add: compare_parameter_id_def py_get_def reference_message_def differing_message_def
      py_num_eq_def)

lemma message_differing:
  "compare_message n reference_message differing_message st =
     (None, append_issue Metadata (ParameterIdDiffers n (JInt 33) (JInt 34))
              (append_issue Grid (GridSizeDiffers n)
                 (append_issue Values (MeanDiffers n (JFloat 1) (JFloat 2))
                    (print (OkSample n ''U'') st))))"
proof -
  have "compare_payload n reference_message differing_message st
          = (None, print (OkSample n (take 30 ''U'')) st)"
    by (rule sampled_payload_ok) (simp_all add: reference_message_def differing_message_def)
  then show ?thesis
    by (simp add: compare_message_def and_then_def statistics_differing grid_differing
        parameter_id_differing)
qed

text \<open>
  Claim C2: the verdict is "all match" if and only if no discrepancy was recorded in
  any category; in particular a recorded statistics, grid or parameter-indicator
  discrepancy gives the verdict "discrepancies found". The script does otherwise on two
  one-message sequences whose samples agree and whose mean, grid width and parameter
  indicator differ: it records one discrepancy in each of the categories values, grid
  and metadata, and prints the verdict "all match".
\<close>

theorem verdict_all_match_despite_discrepancies:
  "completed (main_compare_outputs [reference_message] [differing_message]) \<and>
   recorded (main_compare_outputs [reference_message] [differing_message]) Values
     = [MeanDiffers 1 (JFloat 1) (JFloat 2)] \<and>
   recorded (main_compare_outputs [reference_message] [differing_message]) Grid
     = [GridSizeDiffers 1] \<and>
   recorded (main_compare_outputs [reference_message] [differing_message]) Metadata
     = [ParameterIdDiffers 1 (JInt 33) (JInt 34)] \<and>
   AllMatch \<in> set (text_of (main_compare_outputs [reference_message] [differing_message])) \<and>
   DiscrepanciesFound
     \<notin> set (text_of (main_compare_outputs [reference_message] [differing_message]))"
proof -
  have none: "reference_message ''allValues'' = None \<or> differing_message ''allValues'' = None"
    by (simp add: reference_message_def)
  from single_message_run [OF message_differing none rows_reference_differing]
  obtain rows where
    run: "main_compare_outputs [reference_message] [differing_message] =
      Completed ((print_summary
          (append_issue Metadata (ParameterIdDiffers 1 (JInt 33) (JInt 34))
            (append_issue Grid (GridSizeDiffers 1)
              (append_issue Values (MeanDiffers 1 (JFloat 1) (JFloat 2))
                (print (OkSample 1 ''U'')
                  \<lparr>all_match = True, issues = (\<lambda>c. []),
                     printed = [Banner, MessageCounts 1 1, Comparing 1]\<rparr>)))))
        \<lparr>printed := printed (print_summary
          (append_issue Metadata (ParameterIdDiffers 1 (JInt 33) (JInt 34))
            (append_issue Grid (GridSizeDiffers 1)
              (append_issue Values (MeanDiffers 1 (JFloat 1) (JFloat 2))
                (print (OkSample 1 ''U'')
                  \<lparr>all_match = True, issues = (\<lambda>c. []),
                     printed = [Banner, MessageCounts 1 1, Comparing 1]\<rparr>)))))
          @ [DetailBanner, DetailHeader] @ rows @ [First20Banner]\<rparr>)"
    and rows: "\<forall>row \<in> set rows. \<exists>label pv sv m. row = DetailRow label pv sv m"
    by blast
  from rows have "AllMatch \<notin> set rows" "DiscrepanciesFound \<notin> set rows" by auto
  then show ?thesis
    unfolding run
    by (simp add: completed_def recorded_def text_of_def print_summary_def print_def
        append_issue_def Let_def)
qed

text \<open>
  Claim C6. For two sequences of records of different lengths the run stops at once
  with the error message: the text printed is the banner, the two counts and the error,
  so no message is compared, no pass or fail line is printed, and the run ends before
  the discrepancy buckets exist.
\<close>

theorem count_mismatch_aborts:
  "length pygrib_data \<noteq> length swift_data \<Longrightarrow>
   main_compare_outputs pygrib_data swift_data =
     Aborted [Banner, MessageCounts (length pygrib_data) (length swift_data), CountMismatch]"
  by (simp add: main_compare_outputs_def)

theorem count_mismatch_aborts_witness:
  "main_compare_outputs [reference_message] [] =
     Aborted [Banner, MessageCounts 1 0, CountMismatch]"
  using count_mismatch_aborts [of "[reference_message]" "[]"] by simp

subsection \<open>Missing fields\<close>

lemma message_steps:
  assumes "compare_payload n pg sg st = (None, st1)"
    and "compare_statistics n pg sg st1 = (None, st2)"
    and "compare_grid n pg sg st2 = (None, st3)"
    and "compare_parameter_id n pg sg st3 = (None, st4)"
  shows "compare_message n pg sg st = (None, st4)"
  using assms by (simp add: compare_message_def and_then_def)

lemma rows_reference_without_Ni:
  "\<forall>field \<in> set detail_fields.
     \<exists>row. detail_row reference_message message_without_Ni field = Inr row"
  "\<forall>field \<in> set detail_fields.
     \<exists>row. detail_row message_without_Ni reference_message field = Inr row"
  by (simp_all add: row_defs reference_message_def message_without_Ni_def)

lemma rows_bare:
  "\<forall>field \<in> set detail_fields. \<exists>row. detail_row bare_message bare_message field = Inr row"
  "\<forall>field \<in> set detail_fields. \<exists>row. detail_row reference_message bare_message field = Inr row"
  "\<forall>field \<in> set detail_fields. \<exists>row. detail_row bare_message reference_message field = Inr row"
  by (simp_all add: row_defs reference_message_def bare_message_def)

text \<open>
  Claim C7, as stated: a compared field that is missing from either record is marked
  N/A and never counted as a discrepancy, in the per-message pass as well as in the
  detail table. In the per-message pass a grid width that only the first record has is
  counted: the run records a grid discrepancy for message 1.
\<close>

theorem one_sided_missing_grid_field_counterexample:
  "message_without_Ni ''Ni'' = None \<and>
   completed (main_compare_outputs [reference_message] [message_without_Ni]) \<and>
   recorded (main_compare_outputs [reference_message] [message_without_Ni]) Grid
     = [GridSizeDiffers 1]"
proof -
  let ?st0 = "\<lparr>all_match = True, issues = (\<lambda>c. []),
      printed = [Banner, MessageCounts 1 1, Comparing 1]\<rparr>"
  have none: "reference_message ''allValues'' = None \<or> message_without_Ni ''allValues'' = None"
    by (simp add: reference_message_def)
  have payload: "compare_payload 1 reference_message message_without_Ni ?st0
          = (None, print (OkSample 1 (take 30 ''U'')) ?st0)"
    by (rule sampled_payload_ok)
      (simp_all add: reference_message_def message_without_Ni_def)
  have stats: "compare_statistics 1 reference_message message_without_Ni st = (None, st)"
    for st
    by (rule statistics_same [where a = 1 and b = 1 and c = 1])
      (simp_all add: reference_message_def message_without_Ni_def)
  have grid: "compare_grid 1 reference_message message_without_Ni st =
     (None, append_issue Grid (GridSizeDiffers 1) st)" for st
    by (simp add: compare_grid_def py_get_def reference_message_def message_without_Ni_def)
  have param: "compare_parameter_id 1 reference_message message_without_Ni st = (None, st)"
    for st
    by (simp add: compare_parameter_id_def py_get_def reference_message_def
        message_without_Ni_def py_num_eq_def)
  from single_message_run [OF message_steps [OF payload stats grid param] none
      rows_reference_without_Ni(1)]
  obtain final where
    "main_compare_outputs [reference_message] [message_without_Ni] = Completed final"
    "issues final Grid = [GridSizeDiffers 1]"
    by (auto simp: print_summary_def print_def append_issue_def Let_def)
  moreover have "message_without_Ni ''Ni'' = None"
    by (simp add: message_without_Ni_def)
  ultimately show ?thesis
    by (simp add: completed_def recorded_def)
qed

text \<open>
  Claim C7, amended. In the detail table of a run that completes, a field (other than
  the three statistics) that is missing from either first record is printed with the
  mark N/A, never as a mismatch. In the per-message pass a value payload (\<open>allValues\<close>,
  else \<open>first10\<close>) that is missing from either record is skipped: nothing is printed and
  nothing is recorded for it; a grid field that is missing from both records adds no
  discrepancy (the other grid field decides), and neither does a parameter indicator
  that is missing from both; and a grid field or a parameter indicator that one record,
  either of the two, has (not null) and the other lacks is recorded as a grid or
  metadata discrepancy.
\<close>

theorem missing_field_handling:
  "(main_compare_outputs (pg # pgs) (sg # sgs) = Completed final \<and>
    (label, key) \<in> set detail_fields \<and> key \<notin> set statistics \<and>
    (pg key = None \<or> sg key = None) \<longrightarrow>
      DetailRow label (py_get_default pg key (JStr ''N/A''))
        (py_get_default sg key (JStr ''N/A'')) NA \<in> set (printed final)) \<and>
   ((pg ''allValues'' = None \<or> sg ''allValues'' = None) \<and>
    (pg ''first10'' = None \<or> sg ''first10'' = None) \<longrightarrow>
      compare_payload n pg sg st = (None, st)) \<and>
   (pg ''Ni'' = None \<and> sg ''Ni'' = None \<and> py_eq (py_get pg ''Nj'') (py_get sg ''Nj'') \<longrightarrow>
      compare_grid n pg sg st = (None, st)) \<and>
   (pg ''Nj'' = None \<and> sg ''Nj'' = None \<and> py_eq (py_get pg ''Ni'') (py_get sg ''Ni'') \<longrightarrow>
      compare_grid n pg sg st = (None, st)) \<and>
   (pg ''indicatorOfParameter'' = None \<and> sg ''indicatorOfParameter'' = None \<longrightarrow>
      compare_parameter_id n pg sg st = (None, st)) \<and>
   ((grid_key = ''Ni'' \<or> grid_key = ''Nj'') \<and> v \<noteq> JNull \<and>
    (pg grid_key = Some v \<and> sg grid_key = None \<or>
     pg grid_key = None \<and> sg grid_key = Some v) \<longrightarrow>
      compare_grid n pg sg st = (None, append_issue Grid (GridSizeDiffers n) st)) \<and>
   (v \<noteq> JNull \<and>
    (pg ''indicatorOfParameter'' = Some v \<and> sg ''indicatorOfParameter'' = None \<or>
     pg ''indicatorOfParameter'' = None \<and> sg ''indicatorOfParameter'' = Some v) \<longrightarrow>
      compare_parameter_id n pg sg st =
        (None, append_issue Metadata
           (ParameterIdDiffers n (py_get pg ''indicatorOfParameter'')
              (py_get sg ''indicatorOfParameter'')) st))"
proof (intro conjI impI)
  assume a: "main_compare_outputs (pg # pgs) (sg # sgs) = Completed final \<and>
    (label, key) \<in> set detail_fields \<and> key \<notin> set statistics \<and>
    (pg key = None \<or> sg key = None)"
  then obtain row where "detail_row pg sg (label, key) = Inr row" "row \<in> set (printed final)"
    using completed_run_prints_rows [of pg pgs sg sgs final "(label, key)"] by blast
  with a detail_row_missing [of pg key sg label]
  show "DetailRow label (py_get_default pg key (JStr ''N/A''))
        (py_get_default sg key (JStr ''N/A'')) NA \<in> set (printed final)"
    by auto
next
  assume "(pg ''allValues'' = None \<or> sg ''allValues'' = None) \<and>
    (pg ''first10'' = None \<or> sg ''first10'' = None)"
  then show "compare_payload n pg sg st = (None, st)"
    by (auto simp: compare_payload_def split: option.splits)
next
  assume "pg ''Ni'' = None \<and> sg ''Ni'' = None \<and> py_eq (py_get pg ''Nj'') (py_get sg ''Nj'')"
  then show "compare_grid n pg sg st = (None, st)"
    by (simp add: compare_grid_def py_get_def)
next
  assume "pg ''Nj'' = None \<and> sg ''Nj'' = None \<and> py_eq (py_get pg ''Ni'') (py_get sg ''Ni'')"
  then show "compare_grid n pg sg st = (None, st)"
    by (simp add: compare_grid_def py_get_def)
next
  assume "pg ''indicatorOfParameter'' = None \<and> sg ''indicatorOfParameter'' = None"
  then show "compare_parameter_id n pg sg st = (None, st)"
    by (simp add: compare_parameter_id_def py_get_def)
next
  assume "(grid_key = ''Ni'' \<or> grid_key = ''Nj'') \<and> v \<noteq> JNull \<and>
    (pg grid_key = Some v \<and> sg grid_key = None \<or>
     pg grid_key = None \<and> sg grid_key = Some v)"
  then show "compare_grid n pg sg st = (None, append_issue Grid (GridSizeDiffers n) st)"
    by (auto simp: compare_grid_def py_get_def py_eq_null_iff py_eq_null_left_iff)
next
  assume "v \<noteq> JNull \<and>
    (pg ''indicatorOfParameter'' = Some v \<and> sg ''indicatorOfParameter'' = None \<or>
     pg ''indicatorOfParameter'' = None \<and> sg ''indicatorOfParameter'' = Some v)"
  then show "compare_parameter_id n pg sg st =
        (None, append_issue Metadata
           (ParameterIdDiffers n (py_get pg ''indicatorOfParameter'')
              (py_get sg ''indicatorOfParameter'')) st)"
    by (auto simp: compare_parameter_id_def py_get_def py_eq_null_iff py_eq_null_left_iff)
qed

theorem missing_field_handling_witness:
  "completed (main_compare_outputs [reference_message] [message_without_Ni]) \<and>
   recorded (main_compare_outputs [reference_message] [message_without_Ni]) Grid
     = [GridSizeDiffers 1] \<and>
   DetailRow ''Ni (grid cols)'' (JInt 1) (JStr ''N/A'') NA
     \<in> set (text_of (main_compare_outputs [reference_message] [message_without_Ni])) \<and>
   completed (main_compare_outputs [message_without_Ni] [reference_message]) \<and>
   recorded (main_compare_outputs [message_without_Ni] [reference_message]) Grid
     = [GridSizeDiffers 1] \<and>
   DetailRow ''Ni (grid cols)'' (JStr ''N/A'') (JInt 1) NA
     \<in> set (text_of (main_compare_outputs [message_without_Ni] [reference_message])) \<and>
   completed (main_compare_outputs [bare_message] [bare_message]) \<and>
   recorded (main_compare_outputs [bare_message] [bare_message]) Values = [] \<and>
   recorded (main_compare_outputs [bare_message] [bare_message]) Metadata = [] \<and>
   recorded (main_compare_outputs [bare_message] [bare_message]) Grid = [] \<and>
   recorded (main_compare_outputs [bare_message] [bare_message]) Time = [] \<and>
   filter message_line (text_of (main_compare_outputs [bare_message] [bare_message])) = [] \<and>
   DetailRow ''Ni (grid cols)'' (JStr ''N/A'') (JStr ''N/A'') NA
     \<in> set (text_of (main_compare_outputs [bare_message] [bare_message])) \<and>
   completed (main_compare_outputs [reference_message] [bare_message]) \<and>
   filter message_line (text_of (main_compare_outputs [reference_message] [bare_message])) = [] \<and>
   recorded (main_compare_outputs [reference_message] [bare_message]) Values = [] \<and>
   recorded (main_compare_outputs [reference_message] [bare_message]) Grid
     = [GridSizeDiffers 1] \<and>
   recorded (main_compare_outputs [reference_message] [bare_message]) Metadata
     = [ParameterIdDiffers 1 (JInt 33) JNull] \<and>
   completed (main_compare_outputs [bare_message] [reference_message]) \<and>
   recorded (main_compare_outputs [bare_message] [reference_message]) Grid
     = [GridSizeDiffers 1] \<and>
   recorded (main_compare_outputs [bare_message] [reference_message]) Metadata
     = [ParameterIdDiffers 1 JNull (JInt 33)]"
proof -
  let ?st0 = "\<lparr>all_match = True, issues = (\<lambda>c. []),
      printed = [Banner, MessageCounts 1 1, Comparing 1]\<rparr>"
  note defs = reference_message_def message_without_Ni_def bare_message_def
  note summary = print_summary_def print_def append_issue_def Let_def completed_def
    recorded_def text_of_def
  have no_lines: "filter message_line rows = []"
    if "\<forall>row \<in> set rows. \<exists>label pv sv m. row = DetailRow label pv sv m" for rows
    using that by (induction rows) auto

  \<comment> \<open>the reference record against the record without its grid width\<close>
  have payload_a: "compare_payload 1 reference_message message_without_Ni ?st0
          = (None, print (OkSample 1 (take 30 ''U'')) ?st0)"
    by (rule sampled_payload_ok) (simp_all add: defs)
  have stats_a: "compare_statistics 1 reference_message message_without_Ni st = (None, st)"
    for st
    by (rule statistics_same [where a = 1 and b = 1 and c = 1]) (simp_all add: defs)
  have grid_a: "compare_grid 1 reference_message message_without_Ni st =
     (None, append_issue Grid (GridSizeDiffers 1) st)" for st
    using missing_field_handling [where pg = reference_message and sg = message_without_Ni
        and n = 1 and st = st and grid_key = "''Ni''" and v = "JInt 1"]
    by (simp add: defs)
  have param_a: "compare_parameter_id 1 reference_message message_without_Ni st = (None, st)"
    for st
    by (simp add: compare_parameter_id_def py_get_def defs py_num_eq_def)
  have none_a: "reference_message ''allValues'' = None \<or>
      message_without_Ni ''allValues'' = None"
    by (simp add: defs)
  from single_message_run [OF message_steps [OF payload_a stats_a grid_a param_a] none_a
      rows_reference_without_Ni(1)]
  obtain final_a where
    run_a: "main_compare_outputs [reference_message] [message_without_Ni] = Completed final_a"
    and grid_issue_a: "issues final_a Grid = [GridSizeDiffers 1]"
    by (auto simp: summary)
  have row_a: "DetailRow ''Ni (grid cols)'' (JInt 1) (JStr ''N/A'') NA \<in> set (printed final_a)"
    using missing_field_handling [where pg = reference_message and pgs = "[]"
        and sg = message_without_Ni and sgs = "[]" and final = final_a
        and label = "''Ni (grid cols)''" and key = "''Ni''"] run_a
    by (simp add: defs detail_fields_def statistics_def py_get_default_def)

  \<comment> \<open>the same two records in the other order\<close>
  have payload_b: "compare_payload 1 message_without_Ni reference_message ?st0
          = (None, print (OkSample 1 (take 30 ''U'')) ?st0)"
    by (rule sampled_payload_ok) (simp_all add: defs)
  have stats_b: "compare_statistics 1 message_without_Ni reference_message st = (None, st)"
    for st
    by (rule statistics_same [where a = 1 and b = 1 and c = 1]) (simp_all add: defs)
  have grid_b: "compare_grid 1 message_without_Ni reference_message st =
     (None, append_issue Grid (GridSizeDiffers 1) st)" for st
    using missing_field_handling [where pg = message_without_Ni and sg = reference_message
        and n = 1 and st = st and grid_key = "''Ni''" and v = "JInt 1"]
    by (simp add: defs)
  have param_b: "compare_parameter_id 1 message_without_Ni reference_message st = (None, st)"
    for st
    by (simp add: compare_parameter_id_def py_get_def defs py_num_eq_def)
  have none_b: "message_without_Ni ''allValues'' = None \<or>
      reference_message ''allValues'' = None"
    by (simp add: defs)
  from single_message_run [OF message_steps [OF payload_b stats_b grid_b param_b] none_b
      rows_reference_without_Ni(2)]
  obtain final_b where
    run_b: "main_compare_outputs [message_without_Ni] [reference_message] = Completed final_b"
    and grid_issue_b: "issues final_b Grid = [GridSizeDiffers 1]"
    by (auto simp: summary)
  have row_b: "DetailRow ''Ni (grid cols)'' (JStr ''N/A'') (JInt 1) NA \<in> set (printed final_b)"
    using missing_field_handling [where pg = message_without_Ni and pgs = "[]"
        and sg = reference_message and sgs = "[]" and final = final_b
        and label = "''Ni (grid cols)''" and key = "''Ni''"] run_b
    by (simp add: defs detail_fields_def statistics_def py_get_default_def)

  \<comment> \<open>two records with statistics only\<close>
  have payload_c: "compare_payload 1 bare_message bare_message ?st0 = (None, ?st0)"
    using missing_field_handling [where pg = bare_message and sg = bare_message
        and n = 1 and st = ?st0]
    by (simp add: defs)
  have stats_c: "compare_statistics 1 bare_message bare_message st = (None, st)" for st
    by (rule statistics_same [where a = 1 and b = 1 and c = 1]) (simp_all add: defs)
  have grid_c: "compare_grid 1 bare_message bare_message st = (None, st)" for st
    using missing_field_handling [where pg = bare_message and sg = bare_message
        and n = 1 and st = st]
    by (simp add: defs py_get_def)
  have param_c: "compare_parameter_id 1 bare_message bare_message st = (None, st)" for st
    using missing_field_handling [where pg = bare_message and sg = bare_message
        and n = 1 and st = st]
    by (simp add: defs)
  have none_c: "bare_message ''allValues'' = None \<or> bare_message ''allValues'' = None"
    by (simp add: defs)
  from single_message_run [OF message_steps [OF payload_c stats_c grid_c param_c] none_c
      rows_bare(1)]
  obtain final_c where
    run_c: "main_compare_outputs [bare_message] [bare_message] = Completed final_c"
    and issues_c: "issues final_c = (\<lambda>c. [])"
    and lines_c: "filter message_line (printed final_c) = []"
    by (auto simp: summary no_lines)
  have row_c: "DetailRow ''Ni (grid cols)'' (JStr ''N/A'') (JStr ''N/A'') NA
      \<in> set (printed final_c)"
    using missing_field_handling [where pg = bare_message and pgs = "[]"
        and sg = bare_message and sgs = "[]" and final = final_c
        and label = "''Ni (grid cols)''" and key = "''Ni''"] run_c
    by (simp add: defs detail_fields_def statistics_def py_get_default_def)

  \<comment> \<open>the reference record against the record with statistics only\<close>
  have payload_d: "compare_payload 1 reference_message bare_message ?st0 = (None, ?st0)"
    using missing_field_handling [where pg = reference_message and sg = bare_message
        and n = 1 and st = ?st0]
    by (simp add: defs)
  have stats_d: "compare_statistics 1 reference_message bare_message st = (None, st)" for st
    by (rule statistics_same [where a = 1 and b = 1 and c = 1]) (simp_all add: defs)
  have grid_d: "compare_grid 1 reference_message bare_message st =
     (None, append_issue Grid (GridSizeDiffers 1) st)" for st
    using missing_field_handling [where pg = reference_message and sg = bare_message
        and n = 1 and st = st and grid_key = "''Ni''" and v = "JInt 1"]
    by (simp add: defs)
  have param_d: "compare_parameter_id 1 reference_message bare_message st =
     (None, append_issue Metadata (ParameterIdDiffers 1 (JInt 33) JNull) st)" for st
    using missing_field_handling [where pg = reference_message and sg = bare_message
        and n = 1 and st = st and v = "JInt 33"]
    by (simp add: defs py_get_def)
  have none_d: "reference_message ''allValues'' = None \<or> bare_message ''allValues'' = None"
    by (simp add: defs)
  from single_message_run [OF message_steps [OF payload_d stats_d grid_d param_d] none_d
      rows_bare(2)]
  obtain final_d where
    run_d: "main_compare_outputs [reference_message] [bare_message] = Completed final_d"
    and issues_d: "issues final_d Values = []" "issues final_d Grid = [GridSizeDiffers 1]"
      "issues final_d Metadata = [ParameterIdDiffers 1 (JInt 33) JNull]"
    and lines_d: "filter message_line (printed final_d) = []"
    by (auto simp: summary no_lines)

  \<comment> \<open>and these two in the other order\<close>
  have payload_e: "compare_payload 1 bare_message reference_message ?st0 = (None, ?st0)"
    using missing_field_handling [where pg = bare_message and sg = reference_message
        and n = 1 and st = ?st0]
    by (simp add: defs)
  have stats_e: "compare_statistics 1 bare_message reference_message st = (None, st)" for st
    by (rule statistics_same [where a = 1 and b = 1 and c = 1]) (simp_all add: defs)
  have grid_e: "compare_grid 1 bare_message reference_message st =
     (None, append_issue Grid (GridSizeDiffers 1) st)" for st
    using missing_field_handling [where pg = bare_message and sg = reference_message
        and n = 1 and st = st and grid_key = "''Ni''" and v = "JInt 1"]
    by (simp add: defs)
  have param_e: "compare_parameter_id 1 bare_message reference_message st =
     (None, append_issue Metadata (ParameterIdDiffers 1 JNull (JInt 33)) st)" for st
    using missing_field_handling [where pg = bare_message and sg = reference_message
        and n = 1 and st = st and v = "JInt 33"]
    by (simp add: defs py_get_def)
  have none_e: "bare_message ''allValues'' = None \<or> reference_message ''allValues'' = None"
    by (simp add: defs)
  from single_message_run [OF message_steps [OF payload_e stats_e grid_e param_e] none_e
      rows_bare(3)]
  obtain final_e where
    run_e: "main_compare_outputs [bare_message] [reference_message] = Completed final_e"
    and issues_e: "issues final_e Grid = [GridSizeDiffers 1]"
      "issues final_e Metadata = [ParameterIdDiffers 1 JNull (JInt 33)]"
    by (auto simp: summary)

  show ?thesis
    unfolding run_a run_b run_c run_d run_e
    using grid_issue_a row_a grid_issue_b row_b issues_c lines_c row_c issues_d lines_d
      issues_e
    by (simp add: completed_def recorded_def text_of_def)
qed

section \<open>Properties of the record extractor\<close>

lemma basic_info_no_payload: "basic_info n g d ''allValues'' = None"
  by (simp add: basic_info_def)

lemma value_info_keys:
  "carries (value_info n v vs info) [''first10'', ''last10'', ''min'', ''max'', ''mean'']"
  by (simp add: value_info_def carries_def Let_def)

lemma value_info_allValues:
  "info ''allValues'' = None \<Longrightarrow>
   (value_info n v vs info ''allValues'' \<noteq> None \<longleftrightarrow> n \<le> 5 \<or> (n - 1) mod 51 < 2)"
  by (simp add: value_info_def Let_def)

lemma spot_info_other:
  "spot_info vals info = Inr info' \<Longrightarrow> key \<noteq> ''spotValues'' \<Longrightarrow> info' key = info key"
  by (auto simp: spot_info_def Let_def split: sum.splits)

lemma latlon_info_other:
  "latlon_info g info = Inr info' \<Longrightarrow>
   key \<notin> {''firstLat'', ''firstLon'', ''lastLat'', ''lastLon''} \<Longrightarrow> info' key = info key"
  by (auto simp: latlon_info_def split: sum.splits)

lemma extract_record_keys:
  assumes "extract_record i g = Inr info"
  shows "carries info [''first10'', ''last10'', ''min'', ''max'', ''mean''] \<and>
         (info ''allValues'' \<noteq> None \<longleftrightarrow> i + 1 \<le> 5 \<or> i mod 51 < 2)"
proof -
  from assms obtain d v vs info1 where
    spot: "spot_info (v # vs) (value_info (i + 1) v vs (basic_info (i + 1) g d)) = Inr info1"
    and latlon: "latlon_info g info1 = Inr info"
    by (auto simp: extract_record_def split: sum.splits list.splits)
  let ?info0 = "value_info (i + 1) v vs (basic_info (i + 1) g d)"
  have same: "info key = ?info0 key"
    if "key \<in> {''first10'', ''last10'', ''min'', ''max'', ''mean'', ''allValues''}" for key
  proof -
    from that have "info key = info1 key"
      by (intro latlon_info_other [OF latlon]) auto
    also from that have "info1 key = ?info0 key"
      by (intro spot_info_other [OF spot]) auto
    finally show ?thesis .
  qed
  have "carries info [''first10'', ''last10'', ''min'', ''max'', ''mean'']"
    using value_info_keys [of "i + 1" v vs "basic_info (i + 1) g d"]
    by (simp add: carries_def same)
  moreover have "info ''allValues'' \<noteq> None \<longleftrightarrow> i + 1 \<le> 5 \<or> i mod 51 < 2"
    using value_info_allValues [of "basic_info (i + 1) g d" "i + 1" v vs]
    by (simp add: same basic_info_no_payload)
  ultimately show ?thesis by blast
qed

lemma extract_records_nth:
  "extract_records i gs results = Inr out \<Longrightarrow>
   \<exists>new. out = results @ new \<and> length new = length gs \<and>
     (\<forall>k < length gs. extract_record (i + k) (gs ! k) = Inr (new ! k))"
proof (induction gs arbitrary: i results)
  case Nil
  then show ?case by simp
next
  case (Cons g gs)
  from Cons.prems obtain info where
    first: "extract_record i g = Inr info"
    and rest: "extract_records (Suc i) gs (results @ [info]) = Inr out"
    by (auto split: sum.splits)
  from Cons.IH [OF rest] obtain new where
    new: "out = (results @ [info]) @ new" "length new = length gs"
      "\<forall>k < length gs. extract_record (Suc i + k) (gs ! k) = Inr (new ! k)"
    by blast
  have "\<forall>k < length (g # gs). extract_record (i + k) ((g # gs) ! k) = Inr ((info # new) ! k)"
    using first new(3) by (auto simp: nth_Cons split: nat.splits)
  with new(1,2) show ?case
    by (intro exI [of _ "info # new"]) simp
qed

text \<open>The record of the sample message at any index of the file.\<close>

lemma sample_record:
  "extract_record i sample_grb = Inr
     ((value_info (i + 1) 1 [2, 3] (basic_info (i + 1) sample_grb ''2026-02-01 06:00:00''))
        (''spotValues'' \<mapsto> JObj [(''0'', JFloat 1), (''1'', JFloat 2), (''2'', JFloat 3)],
         ''firstLat'' \<mapsto> JFloat (- 31), ''firstLon'' \<mapsto> JFloat 145,
         ''lastLat'' \<mapsto> JFloat (- 31), ''lastLon'' \<mapsto> JFloat 145))"
  by (simp add: extract_record_def sample_grb_def spot_info_def latlon_info_def np_index_def
      str_int_def Let_def)

text \<open>
  Claim C3, as stated: every record has exactly one of \<open>allValues\<close> and the pair
  \<open>first10\<close>, \<open>last10\<close>. The record of the first message of a file has all three.
\<close>

theorem first_record_has_both_payloads_counterexample:
  "map_sum id (map payload_keys) (main_compare_pygrib [sample_grb])
     = Inr [[''allValues'', ''first10'', ''last10'']]"
  by (simp add: main_compare_pygrib_def sample_record value_info_def payload_keys_def Let_def)

text \<open>
  Claim C3, amended. Every record that the extractor produces carries \<open>first10\<close> and
  \<open>last10\<close>, and \<open>min\<close>, \<open>max\<close> and \<open>mean\<close>; it carries \<open>allValues\<close> as well exactly
  when its message number is at most 5 or the number minus one, modulo 51, is below 2
  (the record at index \<open>k\<close> has the message number \<open>k + 1\<close>).
\<close>

theorem extracted_record_payloads:
  assumes "main_compare_pygrib grbs = Inr results" and "k < length results"
  shows "carries (results ! k) [''first10'', ''last10'', ''min'', ''max'', ''mean''] \<and>
         ((results ! k) ''allValues'' \<noteq> None \<longleftrightarrow> k + 1 \<le> 5 \<or> k mod 51 < 2)"
proof -
  from assms(1) extract_records_nth [of 0 grbs "[]" results]
  have len: "length results = length grbs"
    and each: "\<forall>j < length grbs. extract_record j (grbs ! j) = Inr (results ! j)"
    by (auto simp: main_compare_pygrib_def)
  from each assms(2) len have "extract_record k (grbs ! k) = Inr (results ! k)" by simp
  from extract_record_keys [OF this] show ?thesis by simp
qed

theorem extracted_record_payloads_witness:
  "length (projr (main_compare_pygrib
       [sample_grb, sample_grb, sample_grb, sample_grb, sample_grb, sample_grb])) = 6 \<and>
   carries (projr (main_compare_pygrib
       [sample_grb, sample_grb, sample_grb, sample_grb, sample_grb, sample_grb]) ! 0)
     [''first10'', ''last10'', ''min'', ''max'', ''mean''] \<and>
   (projr (main_compare_pygrib
       [sample_grb, sample_grb, sample_grb, sample_grb, sample_grb, sample_grb]) ! 0)
     ''allValues'' \<noteq> None \<and>
   carries (projr (main_compare_pygrib
       [sample_grb, sample_grb, sample_grb, sample_grb, sample_grb, sample_grb]) ! 5)
     [''first10'', ''last10'', ''min'', ''max'', ''mean''] \<and>
   (projr (main_compare_pygrib
       [sample_grb, sample_grb, sample_grb, sample_grb, sample_grb, sample_grb]) ! 5)
     ''allValues'' = None"
proof -
  let ?grbs = "[sample_grb, sample_grb, sample_grb, sample_grb, sample_grb, sample_grb]"
  obtain results where run: "main_compare_pygrib ?grbs = Inr results"
    by (simp add: main_compare_pygrib_def sample_record)
  then have len: "length results = 6"
    by (auto simp: main_compare_pygrib_def sample_record)
  from extracted_record_payloads [OF run, of 0] extracted_record_payloads [OF run, of 5] len
  have "carries (results ! 0) [''first10'', ''last10'', ''min'', ''max'', ''mean''] \<and>
     (results ! 0) ''allValues'' \<noteq> None \<and>
     carries (results ! 5) [''first10'', ''last10'', ''min'', ''max'', ''mean''] \<and>
     (results ! 5) ''allValues'' = None"
    by simp
  with len show ?thesis unfolding run by simp
qed

end
